theory Spec2Isabelle
  imports Main
begin

section \<open>The AFFiNE socket.io data source: document sync adapter and awareness bridge\<close>

text \<open>
  The module under study is \<^verbatim>\<open>createAffineDataSource\<close> with its local helper
  \<^verbatim>\<open>setupAffineAwareness\<close>. Everything the module does is a call into one of its
  collaborators: the socket (connect, disconnect, emit, on, off), the awareness replica
  (on, off, encode, apply), the two base64 helpers, the console and the caller's callback.
  The embedding threads an explicit \<open>world\<close> through the code. The world holds the
  listener registries of the socket and of the awareness replica, the connection flag, the
  awareness replica itself, and the \<open>trace\<close>: the list of calls the module made, in the
  order it made them.

  A promise is modelled by its settlement. The continuation of a promise runs at the place
  where the promise is created, so a trace shows which calls happen and in which order
  within one operation or handler.

  The parameter \<^verbatim>\<open>awareness\<close> of the source is a reference to a mutable replica; here the
  replica is the field \<open>awareness\<close> of the world. The methods of the socket and of the
  awareness observable return normally: \<^verbatim>\<open>emit\<close> throws only for the reserved event names,
  none of which the module uses, and \<^verbatim>\<open>off\<close> of a listener that is not registered does
  nothing. Both encoders can fail: the synchronous \<^verbatim>\<open>encodeAwarenessUpdate\<close> of the
  awareness engine throws (it reads the clock of every client id it is given, and a client
  the replica has no entry for has none), and the asynchronous base64 helper rejects.
\<close>

subsection \<open>Values\<close>

type_synonym bytes = "nat list"

datatype error = Error string

text \<open>The object literals and strings handed to \<^verbatim>\<open>socket.emit\<close>.\<close>

datatype jsvalue = Undefined | Str string | Obj "(string \<times> jsvalue) list"

record doc =
  guid :: string

record 'st awareness =
  clientID :: nat
  states :: 'st

text \<open>\<^verbatim>\<open>AwarenessChanges\<close>: the three arrays of client ids of one change event.\<close>

record changes =
  added :: "nat list"
  updated :: "nat list"
  removed :: "nat list"

text \<open>\<^verbatim>\<open>options?: { stateVector?: Uint8Array }\<close>\<close>

record options =
  stateVector :: "bytes option"

text \<open>The acknowledgement of a \<^verbatim>\<open>doc-load\<close> request: \<^verbatim>\<open>Error | string | null\<close>.\<close>

datatype ack = AckError error | AckString string | AckNull

text \<open>What \<^verbatim>\<open>queryDocState\<close> resolves to: \<^verbatim>\<open>Uint8Array | false\<close>.\<close>

datatype doc_state = Update bytes | False_sentinel

datatype 'a promise = Resolved 'a | Rejected error | Pending

text \<open>The messages the server sends, with the fields the handlers destructure.\<close>

datatype inbound =
    ServerUpdate string string string
  | ServerAwarenessBroadcast string string
  | NewClientAwarenessInit

fun event_name :: "inbound \<Rightarrow> string" where
  "event_name (ServerUpdate ws g u) = ''server-update''"
| "event_name (ServerAwarenessBroadcast ws au) = ''server-awareness-broadcast''"
| "event_name NewClientAwarenessInit = ''new-client-awareness-init''"

subsection \<open>Closures, effects and the world\<close>

text \<open>
  Every call of \<^verbatim>\<open>onDocUpdate\<close> creates four fresh closures. A closure is named by
  its function and by the number of the activation that created it, so that the closures
  of two activations are different listeners, as they are different objects in JavaScript.
\<close>

datatype socket_listener =
    OnUpdate nat
  | AwarenessBroadcast nat
  | NewClientAwarenessInitHandler nat

datatype awareness_listener = AwarenessUpdate nat

datatype effect =
    SocketConnect
  | SocketDisconnect
  | SocketEmit string jsvalue
  | SocketOn string socket_listener
  | SocketOff string socket_listener
  | AwarenessOn string awareness_listener
  | AwarenessOff string awareness_listener
  | ApplyAwarenessUpdate bytes jsvalue
  | Callback nat string bytes
  | ConsoleWarn string
  | ConsoleError error
  | UnhandledRejection error
  | Uncaught error

record 'st world =
  connected :: bool
  socket_listeners :: "(string \<times> socket_listener) list"
  awareness_listeners :: "(string \<times> awareness_listener) list"
  awareness :: "'st awareness"
  next_closure :: nat
  trace :: "effect list"

text \<open>
  The collaborators whose code is not part of the module: the two helpers of
  \<^verbatim>\<open>./sync-socket-io/utils\<close> and the two functions of \<^verbatim>\<open>y-protocols/awareness\<close>.
  The asynchronous base64 encoder may reject, and the base64 decoder and the awareness
  encoder may throw; all three are sums with the error on the left.
  \<open>applyAwarenessUpdate\<close> returns the new replica and the change set
  the replica announces to its \<^verbatim>\<open>update\<close> listeners, if there is one.
\<close>

record 'st env =
  uint8ArrayToBase64 :: "bytes \<Rightarrow> error + string"
  base64ToUint8Array :: "string \<Rightarrow> error + bytes"
  encodeAwarenessUpdate :: "'st awareness \<Rightarrow> nat list \<Rightarrow> error + bytes"
  applyAwarenessUpdate :: "'st awareness \<Rightarrow> bytes \<Rightarrow> 'st awareness \<times> changes option"

subsection \<open>The socket, the awareness observable and the console\<close>

definition log :: "effect \<Rightarrow> 'st world \<Rightarrow> 'st world" where
  "log e w = w\<lparr>trace := trace w @ [e]\<rparr>"

definition socket_connect :: "'st world \<Rightarrow> 'st world" where
  "socket_connect w = log SocketConnect (w\<lparr>connected := True\<rparr>)"

definition socket_disconnect :: "'st world \<Rightarrow> 'st world" where
  "socket_disconnect w = log SocketDisconnect (w\<lparr>connected := False\<rparr>)"

definition socket_emit :: "string \<Rightarrow> jsvalue \<Rightarrow> 'st world \<Rightarrow> 'st world" where
  "socket_emit ev msg w = log (SocketEmit ev msg) w"

text \<open>The emitter appends a listener on \<^verbatim>\<open>on\<close> and removes its first occurrence on \<^verbatim>\<open>off\<close>.\<close>

definition socket_on :: "string \<Rightarrow> socket_listener \<Rightarrow> 'st world \<Rightarrow> 'st world" where
  "socket_on ev l w =
     log (SocketOn ev l) (w\<lparr>socket_listeners := socket_listeners w @ [(ev, l)]\<rparr>)"

definition socket_off :: "string \<Rightarrow> socket_listener \<Rightarrow> 'st world \<Rightarrow> 'st world" where
  "socket_off ev l w =
     log (SocketOff ev l) (w\<lparr>socket_listeners := remove1 (ev, l) (socket_listeners w)\<rparr>)"

text \<open>The awareness replica keeps its observers in an insertion-ordered set.\<close>

definition awareness_on :: "string \<Rightarrow> awareness_listener \<Rightarrow> 'st world \<Rightarrow> 'st world" where
  "awareness_on ev l w =
     log (AwarenessOn ev l)
       (w\<lparr>awareness_listeners :=
            (if (ev, l) \<in> set (awareness_listeners w) then awareness_listeners w
             else awareness_listeners w @ [(ev, l)])\<rparr>)"

definition awareness_off :: "string \<Rightarrow> awareness_listener \<Rightarrow> 'st world \<Rightarrow> 'st world" where
  "awareness_off ev l w =
     log (AwarenessOff ev l)
       (w\<lparr>awareness_listeners := removeAll (ev, l) (awareness_listeners w)\<rparr>)"

definition console_warn :: "string \<Rightarrow> 'st world \<Rightarrow> 'st world" where
  "console_warn s w = log (ConsoleWarn s) w"

definition console_error :: "error \<Rightarrow> 'st world \<Rightarrow> 'st world" where
  "console_error e w = log (ConsoleError e) w"

subsection \<open>queryDocState and sendDocUpdate\<close>

text \<open>
  The acknowledgement callback of \<^verbatim>\<open>doc-load\<close> (lines 49 to 56 of the source). An \<^verbatim>\<open>Error\<close> rejects. Otherwise the
  promise resolves with \<^verbatim>\<open>update ? base64ToUint8Array(update) : false\<close>; \<^verbatim>\<open>null\<close> and
  the empty string are falsy. A decoder that throws leaves the callback before
  \<^verbatim>\<open>resolve\<close> is reached: the promise stays pending and the exception is the socket's.
\<close>

definition doc_load_ack ::
  "'st env \<Rightarrow> ack \<Rightarrow> 'st world \<Rightarrow> doc_state promise \<times> 'st world" where
  "doc_load_ack env update w =
     (case update of
        AckError e \<Rightarrow> (Rejected e, w)
      | AckNull \<Rightarrow> (Resolved False_sentinel, w)
      | AckString s \<Rightarrow>
          (if s = [] then (Resolved False_sentinel, w)
           else (case base64ToUint8Array env s of
                   Inr b \<Rightarrow> (Resolved (Update b), w)
                 | Inl e \<Rightarrow> (Pending, log (Uncaught e) w))))"

text \<open>
  The promise of lines 41 to 58: the request is emitted with the acknowledgement callback.
  \<open>reply\<close> is what the channel answers to the request: \<open>None\<close> when it never calls the
  callback.
\<close>

definition doc_load ::
  "'st env \<Rightarrow> doc \<Rightarrow> string \<Rightarrow> jsvalue \<Rightarrow> ack option \<Rightarrow> 'st world \<Rightarrow>
     doc_state promise \<times> 'st world" where
  "doc_load env rootDoc g sv reply w =
     (let w1 = socket_emit ''doc-load''
                 (Obj [(''workspaceId'', Str (guid rootDoc)),
                       (''guid'', Str g),
                       (''stateVector'', sv)]) w
      in case reply of
           None \<Rightarrow> (Pending, w1)
         | Some update \<Rightarrow> doc_load_ack env update w1)"

text \<open>
  Lines 37 to 39:
  \<^verbatim>\<open>const stateVector = options?.stateVector ? await uint8ArrayToBase64(...) : undefined\<close>.
  A \<^verbatim>\<open>Uint8Array\<close> is truthy even when empty, so only a missing vector gives
  \<^verbatim>\<open>undefined\<close>; a rejected encoding rejects \<^verbatim>\<open>queryDocState\<close> before anything is sent.
\<close>

definition encode_stateVector :: "'st env \<Rightarrow> options option \<Rightarrow> error + jsvalue" where
  "encode_stateVector env opts =
     (case (case opts of None \<Rightarrow> None | Some os \<Rightarrow> stateVector os) of
        None \<Rightarrow> Inr Undefined
      | Some v \<Rightarrow>
          (case uint8ArrayToBase64 env v of
             Inl e \<Rightarrow> Inl e
           | Inr s \<Rightarrow> Inr (Str s)))"

definition queryDocState ::
  "'st env \<Rightarrow> doc \<Rightarrow> string \<Rightarrow> options option \<Rightarrow> ack option \<Rightarrow> 'st world \<Rightarrow>
     doc_state promise \<times> 'st world" where
  "queryDocState env rootDoc g opts reply w =
     (case encode_stateVector env opts of
        Inl e \<Rightarrow> (Rejected e, w)
      | Inr sv \<Rightarrow> doc_load env rootDoc g sv reply w)"

text \<open>
  Lines 60 to 68. The argument of \<^verbatim>\<open>socket.emit\<close> holds the \<^verbatim>\<open>await\<close>: the encoding is
  awaited first, and a rejection leaves the function before \<^verbatim>\<open>emit\<close> is called.
\<close>

definition sendDocUpdate ::
  "'st env \<Rightarrow> doc \<Rightarrow> string \<Rightarrow> bytes \<Rightarrow> 'st world \<Rightarrow> unit promise \<times> 'st world" where
  "sendDocUpdate env rootDoc g update w =
     (case uint8ArrayToBase64 env update of
        Inl e \<Rightarrow> (Rejected e, w)
      | Inr s \<Rightarrow>
          (Resolved (),
           socket_emit ''client-update''
             (Obj [(''workspaceId'', Str (guid rootDoc)),
                   (''guid'', Str g),
                   (''update'', Str s)]) w))"

subsection \<open>The handlers of the awareness bridge\<close>

text \<open>
  \<^verbatim>\<open>Object.values(changes)\<close> lists the three arrays in the order of the keys, and
  \<^verbatim>\<open>reduce\<close> without an initial value starts from the first element and throws on an
  empty array.
\<close>

definition Object_values :: "changes \<Rightarrow> nat list list" where
  "Object_values c = [added c, updated c, removed c]"

fun reduce :: "('a \<Rightarrow> 'a \<Rightarrow> 'a) \<Rightarrow> 'a list \<Rightarrow> error + 'a" where
  "reduce f [] = Inl (Error ''Reduce of empty array with no initial value'')"
| "reduce f (x # xs) = Inr (foldl f x xs)"

text \<open>
  The local change listener, lines 117 to 136, and the handler of
  \<^verbatim>\<open>new-client-awareness-init\<close>, lines 138 to 150.
  A synchronous handler returns the exception it throws, if any, beside the world.
  \<^verbatim>\<open>encodeAwarenessUpdate\<close> is called in the body of the handler, at lines 127 and 139,
  before the promise chain exists: what it throws leaves the handler, and nothing is logged.
  The promise chain \<^verbatim>\<open>uint8ArrayToBase64(update).then(emit).catch(console.error)\<close> never
  throws into the handler: a rejected encoding is logged.
\<close>

definition awarenessUpdate ::
  "'st env \<Rightarrow> doc \<Rightarrow> changes \<Rightarrow> jsvalue \<Rightarrow> 'st world \<Rightarrow> error option \<times> 'st world" where
  "awarenessUpdate env rootDoc chg origin w =
     (if origin = Str ''server'' then (None, w)
      else (case reduce (\<lambda>res cur. res @ cur) (Object_values chg) of
              Inl e \<Rightarrow> (Some e, w)
            | Inr changedClients \<Rightarrow>
                (case encodeAwarenessUpdate env (awareness w) changedClients of
                   Inl e \<Rightarrow> (Some e, w)
                 | Inr update \<Rightarrow>
                     (case uint8ArrayToBase64 env update of
                        Inr encodedUpdate \<Rightarrow>
                          (None,
                           socket_emit ''awareness-update''
                             (Obj [(''workspaceId'', Str (guid rootDoc)),
                                   (''awarenessUpdate'', Str encodedUpdate)]) w)
                      | Inl err \<Rightarrow> (None, console_error err w)))))"

definition newClientAwarenessInitHandler ::
  "'st env \<Rightarrow> doc \<Rightarrow> 'st world \<Rightarrow> error option \<times> 'st world" where
  "newClientAwarenessInitHandler env rootDoc w =
     (case encodeAwarenessUpdate env (awareness w) [clientID (awareness w)] of
        Inl e \<Rightarrow> (Some e, w)
      | Inr awarenessUpdate' \<Rightarrow>
          (case uint8ArrayToBase64 env awarenessUpdate' of
             Inr encodedAwarenessUpdate \<Rightarrow>
               (None,
                socket_emit ''awareness-update''
                  (Obj [(''guid'', Str (guid rootDoc)),
                        (''awarenessUpdate'', Str encodedAwarenessUpdate)]) w)
           | Inl err \<Rightarrow> (None, console_error err w)))"

text \<open>
  The awareness replica calls its \<^verbatim>\<open>update\<close> observers in the order of registration,
  with the change set and the origin; an observer that throws ends the round.
\<close>

fun awareness_emit ::
  "'st env \<Rightarrow> doc \<Rightarrow> awareness_listener list \<Rightarrow> changes \<Rightarrow> jsvalue \<Rightarrow> 'st world \<Rightarrow>
     error option \<times> 'st world" where
  "awareness_emit env rootDoc [] chg origin w = (None, w)"
| "awareness_emit env rootDoc (AwarenessUpdate k # ls) chg origin w =
     (case awarenessUpdate env rootDoc chg origin w of
        (Some e, w') \<Rightarrow> (Some e, w')
      | (None, w') \<Rightarrow> awareness_emit env rootDoc ls chg origin w')"

definition awareness_change ::
  "'st env \<Rightarrow> doc \<Rightarrow> changes \<Rightarrow> jsvalue \<Rightarrow> 'st world \<Rightarrow> error option \<times> 'st world" where
  "awareness_change env rootDoc chg origin w =
     awareness_emit env rootDoc
       (map snd (filter (\<lambda>r. fst r = ''update'') (awareness_listeners w))) chg origin w"

text \<open>
  The call \<^verbatim>\<open>applyAwarenessUpdate(awareness, update, origin)\<close>: the replica takes the
  update and, when something changed, announces the change set with the origin it was
  given. The handler of \<^verbatim>\<open>server-awareness-broadcast\<close>, lines 99 to 115, makes this call
  with the origin \<^verbatim>\<open>server\<close> for a message of its room.
\<close>

definition awareness_apply ::
  "'st env \<Rightarrow> doc \<Rightarrow> bytes \<Rightarrow> jsvalue \<Rightarrow> 'st world \<Rightarrow> error option \<times> 'st world" where
  "awareness_apply env rootDoc b origin w =
     (let r = applyAwarenessUpdate env (awareness w) b;
          w1 = log (ApplyAwarenessUpdate b origin) (w\<lparr>awareness := fst r\<rparr>)
      in case snd r of
           None \<Rightarrow> (None, w1)
         | Some chg \<Rightarrow> awareness_change env rootDoc chg origin w1)"

definition awarenessBroadcast ::
  "'st env \<Rightarrow> doc \<Rightarrow> string \<Rightarrow> string \<Rightarrow> 'st world \<Rightarrow> error option \<times> 'st world" where
  "awarenessBroadcast env rootDoc workspaceId awarenessUpdate' w =
     (if workspaceId \<noteq> guid rootDoc then (None, w)
      else (case base64ToUint8Array env awarenessUpdate' of
              Inl e \<Rightarrow> (Some e, w)
            | Inr b \<Rightarrow> awareness_apply env rootDoc b (Str ''server'') w))"

text \<open>
  \<^verbatim>\<open>setupAffineAwareness\<close>, lines 152 to 162, returns its teardown (the closure of lines
  158 to 162) and the world after the setup. \<open>k\<close> names the closures this call creates.
\<close>

definition destroyAwareness :: "nat \<Rightarrow> 'st world \<Rightarrow> 'st world" where
  "destroyAwareness k w =
     (let w1 = awareness_off ''update'' (AwarenessUpdate k) w;
          w2 = socket_off ''server-awareness-broadcast'' (AwarenessBroadcast k) w1;
          w3 = socket_off ''new-client-awareness-init'' (NewClientAwarenessInitHandler k) w2
      in w3)"

definition setupAffineAwareness ::
  "nat \<Rightarrow> doc \<Rightarrow> 'st world \<Rightarrow> ('st world \<Rightarrow> 'st world) \<times> 'st world" where
  "setupAffineAwareness k rootDoc w =
     (let w1 = socket_on ''server-awareness-broadcast'' (AwarenessBroadcast k) w;
          w2 = socket_on ''new-client-awareness-init'' (NewClientAwarenessInitHandler k) w1;
          w3 = awareness_on ''update'' (AwarenessUpdate k) w2;
          w4 = socket_emit ''awareness-init'' (Str (guid rootDoc)) w3
      in (destroyAwareness k, w4))"

subsection \<open>onDocUpdate and the data source\<close>

text \<open>
  \<^verbatim>\<open>onUpdate\<close>, lines 72 to 80, is an \<^verbatim>\<open>async\<close> function: a decoder that throws rejects
  the promise the function returns, which nobody handles. The callback of activation \<open>k\<close>
  is called through the effect \<open>Callback k\<close>.
\<close>

definition onUpdate ::
  "'st env \<Rightarrow> doc \<Rightarrow> nat \<Rightarrow> string \<Rightarrow> string \<Rightarrow> string \<Rightarrow> 'st world \<Rightarrow> 'st world" where
  "onUpdate env rootDoc k workspaceId g update w =
     (if workspaceId = guid rootDoc then
        (case base64ToUint8Array env update of
           Inr b \<Rightarrow> log (Callback k g b) w
         | Inl e \<Rightarrow> log (UnhandledRejection e) w)
      else w)"

text \<open>
  \<^verbatim>\<open>onDocUpdate\<close>, lines 69 to 90, and the teardown it returns, lines 84 to 89. The
  teardown has no state of its own: every call runs the same four statements.
\<close>

definition teardown :: "doc \<Rightarrow> nat \<Rightarrow> ('st world \<Rightarrow> 'st world) \<Rightarrow> 'st world \<Rightarrow> 'st world" where
  "teardown rootDoc k destroy w =
     (let w1 = socket_emit ''client-leave'' (Str (guid rootDoc)) w;
          w2 = socket_off ''server-update'' (OnUpdate k) w1;
          w3 = destroy w2;
          w4 = socket_disconnect w3
      in w4)"

definition onDocUpdate ::
  "doc \<Rightarrow> 'st world \<Rightarrow> ('st world \<Rightarrow> 'st world) \<times> 'st world" where
  "onDocUpdate rootDoc w =
     (let k = next_closure w;
          w0 = w\<lparr>next_closure := Suc k\<rparr>;
          w1 = socket_connect w0;
          w2 = socket_emit ''client-handshake'' (Str (guid rootDoc)) w1;
          w3 = socket_on ''server-update'' (OnUpdate k) w2;
          r = setupAffineAwareness k rootDoc w3
      in (teardown rootDoc k (fst r), snd r))"

text \<open>
  The object \<^verbatim>\<open>createAffineDataSource\<close> returns, with its three methods. The function
  itself, lines 21 to 35, compares \<^verbatim>\<open>id\<close> with \<^verbatim>\<open>rootDoc.guid\<close>, warns when they differ,
  and uses \<^verbatim>\<open>id\<close> for nothing else.
\<close>

record 'st adapter =
  adapter_queryDocState ::
    "string \<Rightarrow> options option \<Rightarrow> ack option \<Rightarrow> 'st world \<Rightarrow> doc_state promise \<times> 'st world"
  adapter_sendDocUpdate :: "string \<Rightarrow> bytes \<Rightarrow> 'st world \<Rightarrow> unit promise \<times> 'st world"
  adapter_onDocUpdate :: "'st world \<Rightarrow> ('st world \<Rightarrow> 'st world) \<times> 'st world"

definition createAffineDataSource ::
  "'st env \<Rightarrow> string \<Rightarrow> doc \<Rightarrow> 'st world \<Rightarrow> 'st adapter \<times> 'st world" where
  "createAffineDataSource env id' rootDoc w =
     (let w1 = (if id' \<noteq> guid rootDoc
                then console_warn ''important!! please use doc.guid as roomName'' w
                else w)
      in (\<lparr>adapter_queryDocState = queryDocState env rootDoc,
           adapter_sendDocUpdate = sendDocUpdate env rootDoc,
           adapter_onDocUpdate = onDocUpdate rootDoc\<rparr>, w1))"

subsection \<open>Delivery of inbound messages\<close>

text \<open>
  The socket calls the listeners registered for the event of an inbound message, in the
  order of registration. A listener that throws ends the round, and the exception is the
  socket's.
\<close>

fun run_listener ::
  "'st env \<Rightarrow> doc \<Rightarrow> socket_listener \<Rightarrow> inbound \<Rightarrow> 'st world \<Rightarrow> error option \<times> 'st world" where
  "run_listener env rootDoc (OnUpdate k) (ServerUpdate ws g u) w =
     (None, onUpdate env rootDoc k ws g u w)"
| "run_listener env rootDoc (AwarenessBroadcast k) (ServerAwarenessBroadcast ws au) w =
     awarenessBroadcast env rootDoc ws au w"
| "run_listener env rootDoc (NewClientAwarenessInitHandler k) NewClientAwarenessInit w =
     newClientAwarenessInitHandler env rootDoc w"
| "run_listener env rootDoc l m w = (None, w)"

fun socket_dispatch ::
  "'st env \<Rightarrow> doc \<Rightarrow> socket_listener list \<Rightarrow> inbound \<Rightarrow> 'st world \<Rightarrow>
     error option \<times> 'st world" where
  "socket_dispatch env rootDoc [] m w = (None, w)"
| "socket_dispatch env rootDoc (l # ls) m w =
     (case run_listener env rootDoc l m w of
        (Some e, w') \<Rightarrow> (Some e, w')
      | (None, w') \<Rightarrow> socket_dispatch env rootDoc ls m w')"

definition socket_receive :: "'st env \<Rightarrow> doc \<Rightarrow> inbound \<Rightarrow> 'st world \<Rightarrow> 'st world" where
  "socket_receive env rootDoc m w =
     (case socket_dispatch env rootDoc
             (map snd (filter (\<lambda>r. fst r = event_name m) (socket_listeners w))) m w of
        (Some e, w') \<Rightarrow> log (Uncaught e) w'
      | (None, w') \<Rightarrow> w')"

subsection \<open>Reading a trace\<close>

fun count_emits :: "string \<Rightarrow> effect list \<Rightarrow> nat" where
  "count_emits ev [] = 0"
| "count_emits ev (SocketEmit ev' m # es) =
     (if ev' = ev then Suc (count_emits ev es) else count_emits ev es)"
| "count_emits ev (e # es) = count_emits ev es"

datatype registration =
    OnSocket string socket_listener
  | OnAwareness string awareness_listener

fun registered :: "effect list \<Rightarrow> registration list" where
  "registered [] = []"
| "registered (SocketOn ev l # es) = OnSocket ev l # registered es"
| "registered (AwarenessOn ev l # es) = OnAwareness ev l # registered es"
| "registered (e # es) = registered es"

fun deregistered :: "effect list \<Rightarrow> registration list" where
  "deregistered [] = []"
| "deregistered (SocketOff ev l # es) = OnSocket ev l # deregistered es"
| "deregistered (AwarenessOff ev l # es) = OnAwareness ev l # deregistered es"
| "deregistered (e # es) = deregistered es"

text \<open>
  A world is well formed when every registered closure was created by an activation that
  has already happened: the closures of the next activation are new objects.
\<close>

fun closure_of :: "socket_listener \<Rightarrow> nat" where
  "closure_of (OnUpdate k) = k"
| "closure_of (AwarenessBroadcast k) = k"
| "closure_of (NewClientAwarenessInitHandler k) = k"

fun closure_of_awareness :: "awareness_listener \<Rightarrow> nat" where
  "closure_of_awareness (AwarenessUpdate k) = k"

definition wf_world :: "'st world \<Rightarrow> bool" where
  "wf_world w \<longleftrightarrow>
     list_all (\<lambda>r. closure_of (snd r) < next_closure w) (socket_listeners w) \<and>
     list_all (\<lambda>r. closure_of_awareness (snd r) < next_closure w) (awareness_listeners w)"

text \<open>
  Two worlds with the same registries and the same next closure: what a handler or a
  method other than \<^verbatim>\<open>onDocUpdate\<close> and its teardown leaves in place.
\<close>

definition same_registries :: "'st world \<Rightarrow> 'st world \<Rightarrow> bool" where
  "same_registries w w' \<longleftrightarrow>
     socket_listeners w' = socket_listeners w \<and>
     awareness_listeners w' = awareness_listeners w \<and>
     next_closure w' = next_closure w"

subsection \<open>Sessions\<close>

text \<open>
  What the application and the channel can do with a data source, one action at a time:
  call one of the three methods, call a teardown that an earlier \<^verbatim>\<open>onDocUpdate\<close>
  returned, deliver an inbound message, or change the local awareness replica. A session
  creates the data source and runs a list of actions; it keeps the teardowns returned and
  the settlements of the promises. An exception that leaves a round of local change
  listeners goes to the code that changed the replica, outside the module, and the session
  goes on with the world the round left.
\<close>

datatype outcome = Queried "doc_state promise" | Sent "unit promise"

datatype action =
    CallQueryDocState string "options option" "ack option"
  | CallSendDocUpdate string bytes
  | CallOnDocUpdate
  | CallTeardown nat
  | Deliver inbound
  | LocalChange changes jsvalue

record 'st session =
  world_of :: "'st world"
  teardowns :: "('st world \<Rightarrow> 'st world) list"
  outcomes :: "outcome list"

fun step :: "'st env \<Rightarrow> doc \<Rightarrow> 'st adapter \<Rightarrow> 'st session \<Rightarrow> action \<Rightarrow> 'st session" where
  "step env rootDoc ad s (CallQueryDocState g opts reply) =
     (let r = adapter_queryDocState ad g opts reply (world_of s)
      in s\<lparr>world_of := snd r, outcomes := outcomes s @ [Queried (fst r)]\<rparr>)"
| "step env rootDoc ad s (CallSendDocUpdate g update) =
     (let r = adapter_sendDocUpdate ad g update (world_of s)
      in s\<lparr>world_of := snd r, outcomes := outcomes s @ [Sent (fst r)]\<rparr>)"
| "step env rootDoc ad s CallOnDocUpdate =
     (let r = adapter_onDocUpdate ad (world_of s)
      in s\<lparr>world_of := snd r, teardowns := teardowns s @ [fst r]\<rparr>)"
| "step env rootDoc ad s (CallTeardown i) =
     (if i < length (teardowns s) then s\<lparr>world_of := (teardowns s ! i) (world_of s)\<rparr>
      else s)"
| "step env rootDoc ad s (Deliver m) =
     s\<lparr>world_of := socket_receive env rootDoc m (world_of s)\<rparr>"
| "step env rootDoc ad s (LocalChange chg origin) =
     s\<lparr>world_of := snd (awareness_change env rootDoc chg origin (world_of s))\<rparr>"

definition run ::
  "'st env \<Rightarrow> string \<Rightarrow> doc \<Rightarrow> action list \<Rightarrow> 'st world \<Rightarrow> 'st session" where
  "run env id' rootDoc acts w =
     (let r = createAffineDataSource env id' rootDoc w
      in foldl (step env rootDoc (fst r))
           \<lparr>world_of = snd r, teardowns = [], outcomes = []\<rparr> acts)"

text \<open>The trace without the console warnings.\<close>

fun wire :: "effect list \<Rightarrow> effect list" where
  "wire [] = []"
| "wire (ConsoleWarn s # es) = wire es"
| "wire (e # es) = e # wire es"

text \<open>
  The room of an emitted message: the field \<^verbatim>\<open>workspaceId\<close> of an object, its field
  \<^verbatim>\<open>guid\<close> when it has no \<^verbatim>\<open>workspaceId\<close>, or the string itself. A world is scoped to a
  document when every emission of its trace has the guid of the document as its room.
\<close>

fun room_of :: "jsvalue \<Rightarrow> string option" where
  "room_of (Str s) = Some s"
| "room_of (Obj kvs) =
     (case map_of kvs ''workspaceId'' of
        Some (Str r) \<Rightarrow> Some r
      | _ \<Rightarrow> (case map_of kvs ''guid'' of Some (Str r) \<Rightarrow> Some r | _ \<Rightarrow> None))"
| "room_of Undefined = None"

fun scoped :: "doc \<Rightarrow> effect \<Rightarrow> bool" where
  "scoped rootDoc (SocketEmit ev m) = (room_of m = Some (guid rootDoc))"
| "scoped rootDoc e = True"

definition all_scoped :: "doc \<Rightarrow> 'st world \<Rightarrow> bool" where
  "all_scoped rootDoc w = list_all (scoped rootDoc) (trace w)"

text \<open>
  \<open>earlier p w\<close> is the world \<open>w\<close> with the effects \<open>p\<close> put in front of its trace: the
  same world after a longer past.
\<close>

definition earlier :: "effect list \<Rightarrow> 'st world \<Rightarrow> 'st world" where
  "earlier p w = w\<lparr>trace := p @ trace w\<rparr>"

definition earlier_session :: "effect list \<Rightarrow> 'st session \<Rightarrow> 'st session" where
  "earlier_session p s = s\<lparr>world_of := earlier p (world_of s)\<rparr>"

definition warning :: "string \<Rightarrow> doc \<Rightarrow> effect list" where
  "warning i rootDoc =
     (if i = guid rootDoc then []
      else [ConsoleWarn ''important!! please use doc.guid as roomName''])"

subsection \<open>A sample instance\<close>

text \<open>
  A small instance of the collaborators and an initial world on which the model is
  evaluated. The state of the sample replica is the list of the client ids it has an entry
  for. The sample awareness encoder throws when it is given a client id the replica has no
  entry for, the sample base64 encoder rejects an array with an element that is not a
  byte, and the sample decoder throws on a string with the character \<open>!\<close>.
\<close>

definition sample_env :: "nat list env" where
  "sample_env =
     \<lparr>uint8ArrayToBase64 =
        (\<lambda>b. if list_all (\<lambda>n. n < 256) b then Inr (map char_of b)
              else Inl (Error ''not a byte'')),
      base64ToUint8Array =
        (\<lambda>s. if CHR ''!'' \<in> set s then Inl (Error ''invalid character'')
              else Inr (map of_char s)),
      encodeAwarenessUpdate =
        (\<lambda>aw clients.
           if list_all (\<lambda>c. List.member (states aw) c) clients
           then Inr (length clients # clients)
           else Inl (Error ''no entry for the client'')),
      applyAwarenessUpdate =
        (\<lambda>aw b. (aw, if b = [] then None
                       else Some \<lparr>added = [], updated = b, removed = []\<rparr>))\<rparr>"

definition sample_doc :: doc where
  "sample_doc = \<lparr>guid = ''room''\<rparr>"

definition sample_world :: "nat list world" where
  "sample_world =
     \<lparr>connected = False, socket_listeners = [], awareness_listeners = [],
      awareness = \<lparr>clientID = 7, states = [1, 2, 3, 4, 7, 300]\<rparr>,
      next_closure = 0, trace = []\<rparr>"

text \<open>The sample world after one activation.\<close>

definition sample_active :: "nat list world" where
  "sample_active = snd (onDocUpdate sample_doc sample_world)"

definition sample_changes :: changes where
  "sample_changes = \<lparr>added = [1], updated = [2, 3], removed = [4]\<rparr>"

text \<open>A change set and a replica whose encodings the sample base64 encoder rejects.\<close>

definition sample_bad_changes :: changes where
  "sample_bad_changes = \<lparr>added = [1], updated = [2, 300], removed = [4]\<rparr>"

definition sample_bad_world :: "nat list world" where
  "sample_bad_world =
     \<lparr>connected = False, socket_listeners = [], awareness_listeners = [],
      awareness = \<lparr>clientID = 300, states = [300]\<rparr>, next_closure = 0, trace = []\<rparr>"

text \<open>
  A change set with a client the sample replica has no entry for, and a replica that has
  no entry for its own client: the sample awareness encoder throws on both.
\<close>

definition sample_unknown_changes :: changes where
  "sample_unknown_changes = \<lparr>added = [9], updated = [], removed = []\<rparr>"

definition sample_lost_world :: "nat list world" where
  "sample_lost_world =
     \<lparr>connected = True,
      socket_listeners = [(''new-client-awareness-init'', NewClientAwarenessInitHandler 0)],
      awareness_listeners = [(''update'', AwarenessUpdate 0)],
      awareness = \<lparr>clientID = 9, states = []\<rparr>, next_closure = 1, trace = []\<rparr>"

definition sample_actions :: "action list" where
  "sample_actions =
     [CallOnDocUpdate,
      CallSendDocUpdate ''page'' [104, 105],
      Deliver (ServerUpdate ''room'' ''page'' ''hi''),
      CallQueryDocState ''page'' None (Some AckNull),
      CallTeardown 0]"

section \<open>Properties\<close>

subsection \<open>Reading traces\<close>

lemmas channel_defs =
  log_def socket_connect_def socket_disconnect_def socket_emit_def socket_on_def
  socket_off_def awareness_on_def awareness_off_def console_warn_def console_error_def

lemma count_emits_append:
  "count_emits ev (xs @ ys) = count_emits ev xs + count_emits ev ys"
  by (induction ev xs rule: count_emits.induct) simp_all

lemma registered_append: "registered (xs @ ys) = registered xs @ registered ys"
  by (induction xs rule: registered.induct) simp_all

lemma deregistered_append: "deregistered (xs @ ys) = deregistered xs @ deregistered ys"
  by (induction xs rule: deregistered.induct) simp_all

lemma wire_append: "wire (xs @ ys) = wire xs @ wire ys"
  by (induction xs rule: wire.induct) simp_all

lemma wire_warning: "wire (warning i rootDoc) = []"
  by (simp add: warning_def)

subsection \<open>queryDocState and sendDocUpdate\<close>

text \<open>
  C1. Once the \<^verbatim>\<open>doc-load\<close> request is out (the state vector is absent or its encoding
  succeeded), the acknowledgement decides the result of \<^verbatim>\<open>queryDocState\<close>: an
  \<^verbatim>\<open>Error\<close> rejects the promise with that error, \<^verbatim>\<open>null\<close> resolves it to the
  \<^verbatim>\<open>false\<close> sentinel, and a non-empty string that decodes resolves it to the decoded
  bytes. Exactly one request is emitted, for the room \<^verbatim>\<open>rootDoc.guid\<close> and the target
  guid.
\<close>

theorem queryDocState_settled_by_ack:
  assumes "encode_stateVector env opts = Inr sv"
  shows "fst (queryDocState env rootDoc g opts (Some (AckError e)) w) = Rejected e
       \<and> fst (queryDocState env rootDoc g opts (Some AckNull) w) = Resolved False_sentinel
       \<and> (s \<noteq> [] \<and> base64ToUint8Array env s = Inr b \<longrightarrow>
            fst (queryDocState env rootDoc g opts (Some (AckString s)) w) = Resolved (Update b))
       \<and> trace (snd (queryDocState env rootDoc g opts (Some AckNull) w)) =
           trace w @
             [SocketEmit ''doc-load''
                (Obj [(''workspaceId'', Str (guid rootDoc)), (''guid'', Str g),
                      (''stateVector'', sv)])]"
  using assms
  by (simp add: queryDocState_def doc_load_def doc_load_ack_def socket_emit_def log_def)

theorem queryDocState_settled_by_ack_witness:
  "encode_stateVector sample_env (Some \<lparr>stateVector = Some [104, 105]\<rparr>) = Inr (Str ''hi'')
   \<and> ''ok'' \<noteq> [] \<and> base64ToUint8Array sample_env ''ok'' = Inr [111, 107]
   \<and> fst (queryDocState sample_env sample_doc ''page'' (Some \<lparr>stateVector = Some [104, 105]\<rparr>)
            (Some (AckError (Error ''denied''))) sample_world) = Rejected (Error ''denied'')
   \<and> fst (queryDocState sample_env sample_doc ''page'' (Some \<lparr>stateVector = Some [104, 105]\<rparr>)
            (Some AckNull) sample_world) = Resolved False_sentinel
   \<and> fst (queryDocState sample_env sample_doc ''page'' (Some \<lparr>stateVector = Some [104, 105]\<rparr>)
            (Some (AckString ''ok'')) sample_world) = Resolved (Update [111, 107])"
proof -
  have sv: "encode_stateVector sample_env (Some \<lparr>stateVector = Some [104, 105]\<rparr>)
              = Inr (Str ''hi'')"
    by code_simp
  have dec: "base64ToUint8Array sample_env ''ok'' = Inr [111, 107]"
    by code_simp
  show ?thesis
    using sv dec
      queryDocState_settled_by_ack [OF sv, of sample_doc "''page''" "Error ''denied''"
        sample_world "''ok''" "[111, 107]"]
    by simp
qed

text \<open>
  C7. \<^verbatim>\<open>sendDocUpdate\<close> encodes the update, emits one \<^verbatim>\<open>client-update\<close> tagged with
  the room \<^verbatim>\<open>rootDoc.guid\<close> and the target guid, and resolves; it takes no
  acknowledgement. When the encoding fails the promise is rejected with the encoder's
  error and nothing is emitted.
\<close>

theorem sendDocUpdate_encode_then_emit:
  "(uint8ArrayToBase64 env update = Inr s \<longrightarrow>
      fst (sendDocUpdate env rootDoc g update w) = Resolved ()
    \<and> snd (sendDocUpdate env rootDoc g update w) =
        w\<lparr>trace := trace w @
             [SocketEmit ''client-update''
                (Obj [(''workspaceId'', Str (guid rootDoc)), (''guid'', Str g),
                      (''update'', Str s)])]\<rparr>)
   \<and> (uint8ArrayToBase64 env update = Inl e \<longrightarrow>
        sendDocUpdate env rootDoc g update w = (Rejected e, w))"
  by (simp add: sendDocUpdate_def socket_emit_def log_def)

theorem sendDocUpdate_encode_then_emit_witness:
  "uint8ArrayToBase64 sample_env [104, 105] = Inr ''hi''
   \<and> fst (sendDocUpdate sample_env sample_doc ''page'' [104, 105] sample_world) = Resolved ()
   \<and> count_emits ''client-update''
        (trace (snd (sendDocUpdate sample_env sample_doc ''page'' [104, 105] sample_world))) = 1
   \<and> uint8ArrayToBase64 sample_env [104, 300] = Inl (Error ''not a byte'')
   \<and> sendDocUpdate sample_env sample_doc ''page'' [104, 300] sample_world
        = (Rejected (Error ''not a byte''), sample_world)"
proof -
  have ok: "uint8ArrayToBase64 sample_env [104, 105] = Inr ''hi''"
    by code_simp
  have bad: "uint8ArrayToBase64 sample_env [104, 300] = Inl (Error ''not a byte'')"
    by code_simp
  show ?thesis
    using ok bad
      sendDocUpdate_encode_then_emit [of sample_env "[104, 105]" "''hi''" sample_doc "''page''"
        sample_world]
      sendDocUpdate_encode_then_emit [of sample_env "[104, 300]" _ sample_doc "''page''"
        sample_world "Error ''not a byte''"]
    by (simp add: sample_world_def)
qed

subsection \<open>Inbound updates\<close>

lemma onUpdate_other_room:
  "ws \<noteq> guid rootDoc \<Longrightarrow> onUpdate env rootDoc k ws g u w = w"
  by (simp add: onUpdate_def)

lemma run_listener_other_room:
  "ws \<noteq> guid rootDoc \<Longrightarrow> run_listener env rootDoc l (ServerUpdate ws g u) w = (None, w)"
  by (cases l) (simp_all add: onUpdate_other_room)

lemma socket_dispatch_other_room:
  "ws \<noteq> guid rootDoc \<Longrightarrow> socket_dispatch env rootDoc ls (ServerUpdate ws g u) w = (None, w)"
  by (induction ls) (simp_all add: run_listener_other_room)

text \<open>
  C3. A \<^verbatim>\<open>server-update\<close> for another room changes nothing, whatever listeners are
  registered: no callback is called, so the document replica, which only the callback
  touches, stays as it is. With the listener of one activation registered, a message for
  the room \<^verbatim>\<open>rootDoc.guid\<close> calls that activation's callback once, with the message's
  guid and the decoded update.
\<close>

theorem server_update_room_filter:
  "(ws \<noteq> guid rootDoc \<longrightarrow> socket_receive env rootDoc (ServerUpdate ws g u) w = w)
   \<and> (filter (\<lambda>r. fst r = ''server-update'') (socket_listeners w)
          = [(''server-update'', OnUpdate k)]
        \<and> base64ToUint8Array env u = Inr b \<longrightarrow>
        socket_receive env rootDoc (ServerUpdate (guid rootDoc) g u) w
          = w\<lparr>trace := trace w @ [Callback k g b]\<rparr>)"
  by (simp add: socket_receive_def socket_dispatch_other_room onUpdate_def log_def)

theorem server_update_room_filter_witness:
  "''other'' \<noteq> guid sample_doc
   \<and> socket_receive sample_env sample_doc (ServerUpdate ''other'' ''page'' ''hi'') sample_active
       = sample_active
   \<and> filter (\<lambda>r. fst r = ''server-update'') (socket_listeners sample_active)
       = [(''server-update'', OnUpdate 0)]
   \<and> base64ToUint8Array sample_env ''hi'' = Inr [104, 105]
   \<and> socket_receive sample_env sample_doc (ServerUpdate (guid sample_doc) ''page'' ''hi'')
        sample_active
       = sample_active\<lparr>trace := trace sample_active @ [Callback 0 ''page'' [104, 105]]\<rparr>"
proof -
  have h1: "''other'' \<noteq> guid sample_doc"
    by code_simp
  have h2: "filter (\<lambda>r. fst r = ''server-update'') (socket_listeners sample_active)
              = [(''server-update'', OnUpdate 0)]"
    by code_simp
  have h3: "base64ToUint8Array sample_env ''hi'' = Inr [104, 105]"
    by code_simp
  show ?thesis
    using h1 h2 h3
      server_update_room_filter [of "''other''" sample_doc sample_env "''page''" "''hi''"
        sample_active 0 "[104, 105]"]
    by blast
qed

subsection \<open>The awareness bridge\<close>

lemma awarenessUpdate_server:
  "awarenessUpdate env rootDoc chg (Str ''server'') w = (None, w)"
  by (simp add: awarenessUpdate_def)

lemma awarenessUpdate_local:
  "origin \<noteq> Str ''server'' \<Longrightarrow>
   awarenessUpdate env rootDoc chg origin w =
     (case encodeAwarenessUpdate env (awareness w) (added chg @ updated chg @ removed chg) of
        Inl e \<Rightarrow> (Some e, w)
      | Inr u \<Rightarrow>
          (None,
           case uint8ArrayToBase64 env u of
             Inr s \<Rightarrow> socket_emit ''awareness-update''
                        (Obj [(''workspaceId'', Str (guid rootDoc)),
                              (''awarenessUpdate'', Str s)]) w
           | Inl e \<Rightarrow> console_error e w))"
  by (simp add: awarenessUpdate_def Object_values_def split: sum.splits)

lemma awareness_emit_server:
  "awareness_emit env rootDoc ls chg (Str ''server'') w = (None, w)"
proof (induction ls)
  case Nil
  show ?case by simp
next
  case (Cons l ls)
  then show ?case by (cases l) (simp add: awarenessUpdate_server)
qed

text \<open>
  The handlers leave the awareness replica as it is, and the only exception that leaves
  one of them is the exception of the awareness encoder.
\<close>

lemma awarenessUpdate_awareness:
  "awareness (snd (awarenessUpdate env rootDoc chg origin w)) = awareness w"
  by (cases "origin = Str ''server''")
     (simp_all add: awarenessUpdate_server awarenessUpdate_local socket_emit_def
        console_error_def log_def split: sum.splits)

lemma awarenessUpdate_throws:
  "fst (awarenessUpdate env rootDoc chg origin w) = Some e \<longleftrightarrow>
     origin \<noteq> Str ''server'' \<and>
     encodeAwarenessUpdate env (awareness w) (added chg @ updated chg @ removed chg) = Inl e"
  by (cases "origin = Str ''server''")
     (simp_all add: awarenessUpdate_server awarenessUpdate_local split: sum.splits)

lemma awareness_emit_throws:
  "fst (awareness_emit env rootDoc ls chg origin w) = Some e \<Longrightarrow>
     origin \<noteq> Str ''server'' \<and>
     encodeAwarenessUpdate env (awareness w) (added chg @ updated chg @ removed chg) = Inl e"
proof (induction ls arbitrary: w)
  case Nil
  then show ?case by simp
next
  case (Cons l ls)
  obtain k where l: "l = AwarenessUpdate k" by (cases l)
  obtain r w' where r: "awarenessUpdate env rootDoc chg origin w = (r, w')"
    by (cases "awarenessUpdate env rootDoc chg origin w")
  show ?case
  proof (cases r)
    case None
    with l r Cons.prems have "fst (awareness_emit env rootDoc ls chg origin w') = Some e"
      by simp
    moreover from r awarenessUpdate_awareness [of env rootDoc chg origin w]
    have "awareness w' = awareness w" by simp
    ultimately show ?thesis using Cons.IH [of w'] by simp
  next
    case (Some e')
    with l r Cons.prems have "e' = e" by simp
    with Some r awarenessUpdate_throws [of env rootDoc chg origin w e] show ?thesis by simp
  qed
qed

lemma newClientAwarenessInitHandler_awareness:
  "awareness (snd (newClientAwarenessInitHandler env rootDoc w)) = awareness w"
  by (simp add: newClientAwarenessInitHandler_def socket_emit_def console_error_def log_def
      split: sum.splits)

lemma newClientAwarenessInitHandler_throws:
  "fst (newClientAwarenessInitHandler env rootDoc w) = Some e \<longleftrightarrow>
     encodeAwarenessUpdate env (awareness w) [clientID (awareness w)] = Inl e"
  by (simp add: newClientAwarenessInitHandler_def split: sum.splits)

lemma new_client_dispatch_throws:
  "fst (socket_dispatch env rootDoc ls NewClientAwarenessInit w) = Some e \<Longrightarrow>
     encodeAwarenessUpdate env (awareness w) [clientID (awareness w)] = Inl e"
proof (induction ls arbitrary: w)
  case Nil
  then show ?case by simp
next
  case (Cons l ls)
  show ?case
  proof (cases l)
    case (OnUpdate k)
    with Cons show ?thesis by simp
  next
    case (AwarenessBroadcast k)
    with Cons show ?thesis by simp
  next
    case (NewClientAwarenessInitHandler k)
    obtain r w' where r: "newClientAwarenessInitHandler env rootDoc w = (r, w')"
      by (cases "newClientAwarenessInitHandler env rootDoc w")
    show ?thesis
    proof (cases r)
      case None
      with NewClientAwarenessInitHandler r Cons.prems
      have "fst (socket_dispatch env rootDoc ls NewClientAwarenessInit w') = Some e"
        by simp
      moreover from r newClientAwarenessInitHandler_awareness [of env rootDoc w]
      have "awareness w' = awareness w" by simp
      ultimately show ?thesis using Cons.IH [of w'] by simp
    next
      case (Some e')
      with NewClientAwarenessInitHandler r Cons.prems have "e' = e" by simp
      with Some r newClientAwarenessInitHandler_throws [of env rootDoc w e] show ?thesis
        by simp
    qed
  qed
qed

text \<open>
  An inbound broadcast is applied with the origin \<^verbatim>\<open>server\<close>, so the change it causes
  is not sent back: the handler adds no emission to the trace.
\<close>

lemma awarenessBroadcast_no_echo:
  "count_emits ev (trace (snd (awarenessBroadcast env rootDoc ws au w)))
     = count_emits ev (trace w)"
  by (simp add: awarenessBroadcast_def awareness_apply_def awareness_change_def
      awareness_emit_server log_def Let_def count_emits_append split: sum.splits option.splits)

text \<open>
  C4. A local awareness change with the origin \<^verbatim>\<open>server\<close> changes nothing, whatever
  listeners are registered: nothing is emitted. With the listener of one activation
  registered, a change with any other origin encodes the awareness of the client ids
  \<open>added @ updated @ removed\<close>, and, the encoding and its base64 encoding done, emits one
  \<^verbatim>\<open>awareness-update\<close> with the field \<^verbatim>\<open>workspaceId = rootDoc.guid\<close>.
\<close>

theorem awareness_change_origin_gate:
  "awareness_change env rootDoc chg (Str ''server'') w = (None, w)
   \<and> (origin \<noteq> Str ''server''
        \<and> filter (\<lambda>r. fst r = ''update'') (awareness_listeners w)
            = [(''update'', AwarenessUpdate k)]
        \<and> encodeAwarenessUpdate env (awareness w) (added chg @ updated chg @ removed chg)
            = Inr u
        \<and> uint8ArrayToBase64 env u = Inr s \<longrightarrow>
        awareness_change env rootDoc chg origin w =
          (None,
           w\<lparr>trace := trace w @
                [SocketEmit ''awareness-update''
                   (Obj [(''workspaceId'', Str (guid rootDoc)),
                         (''awarenessUpdate'', Str s)])]\<rparr>))"
  by (simp add: awareness_change_def awareness_emit_server awarenessUpdate_local
      socket_emit_def log_def)

theorem awareness_change_origin_gate_witness:
  "Str ''local'' \<noteq> Str ''server''
   \<and> filter (\<lambda>r. fst r = ''update'') (awareness_listeners sample_active)
       = [(''update'', AwarenessUpdate 0)]
   \<and> encodeAwarenessUpdate sample_env (awareness sample_active)
        (added sample_changes @ updated sample_changes @ removed sample_changes)
       = Inr [4, 1, 2, 3, 4]
   \<and> uint8ArrayToBase64 sample_env [4, 1, 2, 3, 4]
       = Inr [CHR 0x04, CHR 0x01, CHR 0x02, CHR 0x03, CHR 0x04]
   \<and> awareness_change sample_env sample_doc sample_changes (Str ''server'') sample_active
       = (None, sample_active)
   \<and> awareness_change sample_env sample_doc sample_changes (Str ''local'') sample_active
       = (None,
          sample_active\<lparr>trace := trace sample_active @
             [SocketEmit ''awareness-update''
                (Obj [(''workspaceId'', Str (guid sample_doc)),
                      (''awarenessUpdate'',
                       Str [CHR 0x04, CHR 0x01, CHR 0x02, CHR 0x03, CHR 0x04])])]\<rparr>)"
proof -
  have h1: "Str ''local'' \<noteq> Str ''server''"
    by simp
  have h2: "filter (\<lambda>r. fst r = ''update'') (awareness_listeners sample_active)
              = [(''update'', AwarenessUpdate 0)]"
    by code_simp
  have h3: "encodeAwarenessUpdate sample_env (awareness sample_active)
              (added sample_changes @ updated sample_changes @ removed sample_changes)
            = Inr [4, 1, 2, 3, 4]"
    by code_simp
  have h4: "uint8ArrayToBase64 sample_env [4, 1, 2, 3, 4]
              = Inr [CHR 0x04, CHR 0x01, CHR 0x02, CHR 0x03, CHR 0x04]"
    by code_simp
  show ?thesis
    using h1 h2 h3 h4
      awareness_change_origin_gate [of sample_env sample_doc sample_changes sample_active
        "Str ''local''" 0 "[4, 1, 2, 3, 4]"
        "[CHR 0x04, CHR 0x01, CHR 0x02, CHR 0x03, CHR 0x04]"]
    by blast
qed

text \<open>
  C5. With the handler of one activation registered, a \<^verbatim>\<open>new-client-awareness-init\<close>
  notification encodes the awareness of the single client id \<^verbatim>\<open>awareness.clientID\<close> and,
  the encoding and its base64 encoding done, emits one \<^verbatim>\<open>awareness-update\<close> with that
  payload, under the field \<^verbatim>\<open>guid = rootDoc.guid\<close>.
\<close>

theorem new_client_init_emits_own_entry:
  assumes "filter (\<lambda>r. fst r = ''new-client-awareness-init'') (socket_listeners w)
             = [(''new-client-awareness-init'', NewClientAwarenessInitHandler k)]"
      and "encodeAwarenessUpdate env (awareness w) [clientID (awareness w)] = Inr u"
      and "uint8ArrayToBase64 env u = Inr s"
  shows "socket_receive env rootDoc NewClientAwarenessInit w =
           w\<lparr>trace := trace w @
                [SocketEmit ''awareness-update''
                   (Obj [(''guid'', Str (guid rootDoc)), (''awarenessUpdate'', Str s)])]\<rparr>"
  using assms
  by (simp add: socket_receive_def newClientAwarenessInitHandler_def socket_emit_def log_def)

theorem new_client_init_emits_own_entry_witness:
  "filter (\<lambda>r. fst r = ''new-client-awareness-init'') (socket_listeners sample_active)
     = [(''new-client-awareness-init'', NewClientAwarenessInitHandler 0)]
   \<and> encodeAwarenessUpdate sample_env (awareness sample_active)
        [clientID (awareness sample_active)] = Inr [1, 7]
   \<and> uint8ArrayToBase64 sample_env [1, 7] = Inr [CHR 0x01, CHR 0x07]
   \<and> socket_receive sample_env sample_doc NewClientAwarenessInit sample_active
       = sample_active\<lparr>trace := trace sample_active @
            [SocketEmit ''awareness-update''
               (Obj [(''guid'', Str (guid sample_doc)),
                     (''awarenessUpdate'', Str [CHR 0x01, CHR 0x07])])]\<rparr>"
proof -
  have h1: "filter (\<lambda>r. fst r = ''new-client-awareness-init'') (socket_listeners sample_active)
              = [(''new-client-awareness-init'', NewClientAwarenessInitHandler 0)]"
    by code_simp
  have h2: "encodeAwarenessUpdate sample_env (awareness sample_active)
              [clientID (awareness sample_active)] = Inr [1, 7]"
    by code_simp
  have h3: "uint8ArrayToBase64 sample_env [1, 7] = Inr [CHR 0x01, CHR 0x07]"
    by code_simp
  show ?thesis
    using h1 h2 h3 new_client_init_emits_own_entry [OF h1 h2 h3, of sample_doc]
    by blast
qed

text \<open>
  C6, as the code has it. The promise chain catches what comes after the awareness
  encoder: on either awareness path a base64 encoding that rejects is logged with
  \<^verbatim>\<open>console.error\<close>, nothing is emitted and nothing is thrown. The awareness encoder
  itself is called before the chain, outside any \<^verbatim>\<open>catch\<close>: what it throws leaves the
  handler into the dispatch that called it, unlogged, and it is the only exception that
  leaves a round of local change listeners or of \<^verbatim>\<open>new-client-awareness-init\<close> listeners.
  On the document path a base64 encoding that rejects rejects the promise of
  \<^verbatim>\<open>sendDocUpdate\<close>.
\<close>

theorem awareness_error_paths:
  "(origin \<noteq> Str ''server''
      \<and> encodeAwarenessUpdate env (awareness w) (added chg @ updated chg @ removed chg) = Inr u
      \<and> uint8ArrayToBase64 env u = Inl e \<longrightarrow>
      awarenessUpdate env rootDoc chg origin w
        = (None, w\<lparr>trace := trace w @ [ConsoleError e]\<rparr>))
   \<and> (encodeAwarenessUpdate env (awareness w) [clientID (awareness w)] = Inr u
        \<and> uint8ArrayToBase64 env u = Inl e \<longrightarrow>
        newClientAwarenessInitHandler env rootDoc w
          = (None, w\<lparr>trace := trace w @ [ConsoleError e]\<rparr>))
   \<and> (origin \<noteq> Str ''server''
        \<and> encodeAwarenessUpdate env (awareness w) (added chg @ updated chg @ removed chg)
            = Inl e \<longrightarrow>
        awarenessUpdate env rootDoc chg origin w = (Some e, w))
   \<and> (encodeAwarenessUpdate env (awareness w) [clientID (awareness w)] = Inl e \<longrightarrow>
        newClientAwarenessInitHandler env rootDoc w = (Some e, w))
   \<and> (fst (awareness_change env rootDoc chg origin w) = Some e \<longrightarrow>
        origin \<noteq> Str ''server''
        \<and> encodeAwarenessUpdate env (awareness w) (added chg @ updated chg @ removed chg)
            = Inl e)
   \<and> (fst (socket_dispatch env rootDoc ls NewClientAwarenessInit w) = Some e \<longrightarrow>
        encodeAwarenessUpdate env (awareness w) [clientID (awareness w)] = Inl e)
   \<and> (uint8ArrayToBase64 env update = Inl e \<longrightarrow>
        sendDocUpdate env rootDoc g update w = (Rejected e, w))"
proof -
  have logged: "origin \<noteq> Str ''server''
      \<and> encodeAwarenessUpdate env (awareness w) (added chg @ updated chg @ removed chg) = Inr u
      \<and> uint8ArrayToBase64 env u = Inl e \<longrightarrow>
      awarenessUpdate env rootDoc chg origin w
        = (None, w\<lparr>trace := trace w @ [ConsoleError e]\<rparr>)"
    by (simp add: awarenessUpdate_local console_error_def log_def)
  have logged': "encodeAwarenessUpdate env (awareness w) [clientID (awareness w)] = Inr u
        \<and> uint8ArrayToBase64 env u = Inl e \<longrightarrow>
        newClientAwarenessInitHandler env rootDoc w
          = (None, w\<lparr>trace := trace w @ [ConsoleError e]\<rparr>)"
    by (simp add: newClientAwarenessInitHandler_def console_error_def log_def)
  have thrown: "origin \<noteq> Str ''server''
        \<and> encodeAwarenessUpdate env (awareness w) (added chg @ updated chg @ removed chg)
            = Inl e \<longrightarrow>
        awarenessUpdate env rootDoc chg origin w = (Some e, w)"
    by (simp add: awarenessUpdate_local)
  have thrown': "encodeAwarenessUpdate env (awareness w) [clientID (awareness w)] = Inl e \<longrightarrow>
        newClientAwarenessInitHandler env rootDoc w = (Some e, w)"
    by (simp add: newClientAwarenessInitHandler_def)
  have only: "fst (awareness_change env rootDoc chg origin w) = Some e \<longrightarrow>
        origin \<noteq> Str ''server''
        \<and> encodeAwarenessUpdate env (awareness w) (added chg @ updated chg @ removed chg)
            = Inl e"
    unfolding awareness_change_def by (blast dest: awareness_emit_throws)
  have only': "fst (socket_dispatch env rootDoc ls NewClientAwarenessInit w) = Some e \<longrightarrow>
        encodeAwarenessUpdate env (awareness w) [clientID (awareness w)] = Inl e"
    by (blast dest: new_client_dispatch_throws)
  have doc: "uint8ArrayToBase64 env update = Inl e \<longrightarrow>
        sendDocUpdate env rootDoc g update w = (Rejected e, w)"
    by (simp add: sendDocUpdate_def)
  from logged logged' thrown thrown' only only' doc show ?thesis
    by blast
qed

theorem awareness_error_paths_witness:
  "Str ''local'' \<noteq> Str ''server''
   \<and> encodeAwarenessUpdate sample_env (awareness sample_active)
        (added sample_bad_changes @ updated sample_bad_changes @ removed sample_bad_changes)
       = Inr [4, 1, 2, 300, 4]
   \<and> uint8ArrayToBase64 sample_env [4, 1, 2, 300, 4] = Inl (Error ''not a byte'')
   \<and> awarenessUpdate sample_env sample_doc sample_bad_changes (Str ''local'') sample_active
       = (None, sample_active\<lparr>trace := trace sample_active
                                  @ [ConsoleError (Error ''not a byte'')]\<rparr>)
   \<and> encodeAwarenessUpdate sample_env (awareness sample_bad_world)
        [clientID (awareness sample_bad_world)] = Inr [1, 300]
   \<and> uint8ArrayToBase64 sample_env [1, 300] = Inl (Error ''not a byte'')
   \<and> newClientAwarenessInitHandler sample_env sample_doc sample_bad_world
       = (None, sample_bad_world\<lparr>trace := trace sample_bad_world
                                  @ [ConsoleError (Error ''not a byte'')]\<rparr>)
   \<and> encodeAwarenessUpdate sample_env (awareness sample_active)
        (added sample_unknown_changes @ updated sample_unknown_changes
           @ removed sample_unknown_changes)
       = Inl (Error ''no entry for the client'')
   \<and> awarenessUpdate sample_env sample_doc sample_unknown_changes (Str ''local'') sample_active
       = (Some (Error ''no entry for the client''), sample_active)
   \<and> encodeAwarenessUpdate sample_env (awareness sample_lost_world)
        [clientID (awareness sample_lost_world)] = Inl (Error ''no entry for the client'')
   \<and> newClientAwarenessInitHandler sample_env sample_doc sample_lost_world
       = (Some (Error ''no entry for the client''), sample_lost_world)
   \<and> fst (awareness_change sample_env sample_doc sample_unknown_changes (Str ''local'')
             sample_active) = Some (Error ''no entry for the client'')
   \<and> fst (socket_dispatch sample_env sample_doc [NewClientAwarenessInitHandler 0]
             NewClientAwarenessInit sample_lost_world)
       = Some (Error ''no entry for the client'')
   \<and> uint8ArrayToBase64 sample_env [104, 300] = Inl (Error ''not a byte'')
   \<and> sendDocUpdate sample_env sample_doc ''page'' [104, 300] sample_active
       = (Rejected (Error ''not a byte''), sample_active)"
proof -
  have h1: "Str ''local'' \<noteq> Str ''server''"
    by simp
  have h2: "encodeAwarenessUpdate sample_env (awareness sample_active)
              (added sample_bad_changes @ updated sample_bad_changes
                 @ removed sample_bad_changes)
            = Inr [4, 1, 2, 300, 4]"
    by code_simp
  have h3: "uint8ArrayToBase64 sample_env [4, 1, 2, 300, 4] = Inl (Error ''not a byte'')"
    by code_simp
  have h4: "encodeAwarenessUpdate sample_env (awareness sample_bad_world)
              [clientID (awareness sample_bad_world)] = Inr [1, 300]"
    by code_simp
  have h5: "uint8ArrayToBase64 sample_env [1, 300] = Inl (Error ''not a byte'')"
    by code_simp
  have h6: "encodeAwarenessUpdate sample_env (awareness sample_active)
              (added sample_unknown_changes @ updated sample_unknown_changes
                 @ removed sample_unknown_changes)
            = Inl (Error ''no entry for the client'')"
    by code_simp
  have h7: "encodeAwarenessUpdate sample_env (awareness sample_lost_world)
              [clientID (awareness sample_lost_world)]
            = Inl (Error ''no entry for the client'')"
    by code_simp
  have h8: "fst (awareness_change sample_env sample_doc sample_unknown_changes (Str ''local'')
                   sample_active) = Some (Error ''no entry for the client'')"
    by code_simp
  have h9: "fst (socket_dispatch sample_env sample_doc [NewClientAwarenessInitHandler 0]
                   NewClientAwarenessInit sample_lost_world)
            = Some (Error ''no entry for the client'')"
    by code_simp
  have h10: "uint8ArrayToBase64 sample_env [104, 300] = Inl (Error ''not a byte'')"
    by code_simp
  note at_active =
    awareness_error_paths [where origin = "Str ''local''" and env = sample_env
      and w = sample_active and chg = sample_bad_changes and u = "[4, 1, 2, 300, 4]"
      and e = "Error ''not a byte''" and rootDoc = sample_doc and ls = "[]"
      and update = "[104, 300]" and g = "''page''"]
  note at_bad =
    awareness_error_paths [where origin = "Str ''local''" and env = sample_env
      and w = sample_bad_world and chg = sample_bad_changes and u = "[1, 300]"
      and e = "Error ''not a byte''" and rootDoc = sample_doc and ls = "[]"
      and update = "[104, 300]" and g = "''page''"]
  note at_unknown =
    awareness_error_paths [where origin = "Str ''local''" and env = sample_env
      and w = sample_active and chg = sample_unknown_changes and u = "[]"
      and e = "Error ''no entry for the client''" and rootDoc = sample_doc and ls = "[]"
      and update = "[104, 300]" and g = "''page''"]
  note at_lost =
    awareness_error_paths [where origin = "Str ''local''" and env = sample_env
      and w = sample_lost_world and chg = sample_unknown_changes and u = "[]"
      and e = "Error ''no entry for the client''" and rootDoc = sample_doc
      and ls = "[NewClientAwarenessInitHandler 0]"
      and update = "[104, 300]" and g = "''page''"]
  have c1: "awarenessUpdate sample_env sample_doc sample_bad_changes (Str ''local'')
              sample_active
            = (None, sample_active\<lparr>trace := trace sample_active
                                       @ [ConsoleError (Error ''not a byte'')]\<rparr>)"
    using at_active h1 h2 h3 by blast
  have c2: "newClientAwarenessInitHandler sample_env sample_doc sample_bad_world
            = (None, sample_bad_world\<lparr>trace := trace sample_bad_world
                                       @ [ConsoleError (Error ''not a byte'')]\<rparr>)"
    using at_bad h4 h5 by blast
  have c3: "awarenessUpdate sample_env sample_doc sample_unknown_changes (Str ''local'')
              sample_active
            = (Some (Error ''no entry for the client''), sample_active)"
    using at_unknown h1 h6 by blast
  have c4: "newClientAwarenessInitHandler sample_env sample_doc sample_lost_world
            = (Some (Error ''no entry for the client''), sample_lost_world)"
    using at_lost h7 by blast
  have c5: "sendDocUpdate sample_env sample_doc ''page'' [104, 300] sample_active
            = (Rejected (Error ''not a byte''), sample_active)"
    using at_active h10 by blast
  from h1 h2 h3 h4 h5 h6 h7 h8 h9 h10 c1 c2 c3 c4 c5 show ?thesis
    by simp
qed

text \<open>
  A local change that names a client the sample replica has no entry for: the awareness
  encoder throws, the exception leaves the round of listeners, and the trace, with no
  \<^verbatim>\<open>console.error\<close> in it, is as it was.
\<close>

theorem awareness_error_paths_counterexample:
  "fst (awareness_change sample_env sample_doc sample_unknown_changes (Str ''local'')
          sample_active) \<noteq> None
   \<and> trace (snd (awareness_change sample_env sample_doc sample_unknown_changes (Str ''local'')
                   sample_active)) = trace sample_active"
  by code_simp

subsection \<open>Activation and teardown\<close>

lemma onDocUpdate_teardown:
  "fst (onDocUpdate rootDoc w) =
     teardown rootDoc (next_closure w) (destroyAwareness (next_closure w))"
  by (simp add: onDocUpdate_def setupAffineAwareness_def Let_def)

lemma onDocUpdate_socket_listeners:
  "socket_listeners (snd (onDocUpdate rootDoc w)) =
     socket_listeners w @
       [(''server-update'', OnUpdate (next_closure w)),
        (''server-awareness-broadcast'', AwarenessBroadcast (next_closure w)),
        (''new-client-awareness-init'', NewClientAwarenessInitHandler (next_closure w))]"
  by (simp add: onDocUpdate_def setupAffineAwareness_def channel_defs Let_def)

lemma onDocUpdate_awareness_listeners:
  "(''update'', AwarenessUpdate (next_closure w)) \<notin> set (awareness_listeners w) \<Longrightarrow>
   awareness_listeners (snd (onDocUpdate rootDoc w)) =
     awareness_listeners w @ [(''update'', AwarenessUpdate (next_closure w))]"
  by (simp add: onDocUpdate_def setupAffineAwareness_def channel_defs Let_def)

lemma teardown_socket_listeners:
  "socket_listeners (teardown rootDoc k (destroyAwareness k) v) =
     remove1 (''new-client-awareness-init'', NewClientAwarenessInitHandler k)
       (remove1 (''server-awareness-broadcast'', AwarenessBroadcast k)
          (remove1 (''server-update'', OnUpdate k) (socket_listeners v)))"
  by (simp add: teardown_def destroyAwareness_def channel_defs Let_def)

lemma teardown_awareness_listeners:
  "awareness_listeners (teardown rootDoc k (destroyAwareness k) v) =
     removeAll (''update'', AwarenessUpdate k) (awareness_listeners v)"
  by (simp add: teardown_def destroyAwareness_def channel_defs Let_def)

lemma teardown_trace:
  "trace (teardown rootDoc k (destroyAwareness k) v) =
     trace v @
       [SocketEmit ''client-leave'' (Str (guid rootDoc)),
        SocketOff ''server-update'' (OnUpdate k),
        AwarenessOff ''update'' (AwarenessUpdate k),
        SocketOff ''server-awareness-broadcast'' (AwarenessBroadcast k),
        SocketOff ''new-client-awareness-init'' (NewClientAwarenessInitHandler k),
        SocketDisconnect]"
  by (simp add: teardown_def destroyAwareness_def channel_defs Let_def)

lemma teardown_connected: "connected (teardown rootDoc k (destroyAwareness k) v) = False"
  by (simp add: teardown_def destroyAwareness_def channel_defs Let_def)

lemma teardown_awareness:
  "awareness (teardown rootDoc k (destroyAwareness k) v) = awareness v"
  by (simp add: teardown_def destroyAwareness_def channel_defs Let_def)

text \<open>
  C8. \<^verbatim>\<open>onDocUpdate\<close> connects, emits \<^verbatim>\<open>client-handshake\<close> with the room, registers
  the \<^verbatim>\<open>server-update\<close> listener and runs the awareness setup, which registers its three
  listeners and ends with \<^verbatim>\<open>awareness-init\<close> for the room. The teardown it returns emits
  \<^verbatim>\<open>client-leave\<close>, deregisters the \<^verbatim>\<open>server-update\<close> listener, runs the awareness
  teardown and disconnects. Both in this order, and nothing else. The calls have their
  effects: after the activation the channel is open and the four listeners are in the
  registries, behind the listeners that were there; after the teardown the channel is
  closed and the four listeners are taken out of the registries. Neither touches the
  awareness replica.
\<close>

theorem onDocUpdate_order:
  "trace (snd (onDocUpdate rootDoc w)) =
     trace w @
       [SocketConnect,
        SocketEmit ''client-handshake'' (Str (guid rootDoc)),
        SocketOn ''server-update'' (OnUpdate (next_closure w)),
        SocketOn ''server-awareness-broadcast'' (AwarenessBroadcast (next_closure w)),
        SocketOn ''new-client-awareness-init'' (NewClientAwarenessInitHandler (next_closure w)),
        AwarenessOn ''update'' (AwarenessUpdate (next_closure w)),
        SocketEmit ''awareness-init'' (Str (guid rootDoc))]
   \<and> trace (fst (onDocUpdate rootDoc w) v) =
       trace v @
         [SocketEmit ''client-leave'' (Str (guid rootDoc)),
          SocketOff ''server-update'' (OnUpdate (next_closure w)),
          AwarenessOff ''update'' (AwarenessUpdate (next_closure w)),
          SocketOff ''server-awareness-broadcast'' (AwarenessBroadcast (next_closure w)),
          SocketOff ''new-client-awareness-init'' (NewClientAwarenessInitHandler (next_closure w)),
          SocketDisconnect]
   \<and> connected (snd (onDocUpdate rootDoc w))
   \<and> socket_listeners (snd (onDocUpdate rootDoc w)) =
       socket_listeners w @
         [(''server-update'', OnUpdate (next_closure w)),
          (''server-awareness-broadcast'', AwarenessBroadcast (next_closure w)),
          (''new-client-awareness-init'', NewClientAwarenessInitHandler (next_closure w))]
   \<and> awareness_listeners (snd (onDocUpdate rootDoc w)) =
       (if (''update'', AwarenessUpdate (next_closure w)) \<in> set (awareness_listeners w)
        then awareness_listeners w
        else awareness_listeners w @ [(''update'', AwarenessUpdate (next_closure w))])
   \<and> awareness (snd (onDocUpdate rootDoc w)) = awareness w
   \<and> \<not> connected (fst (onDocUpdate rootDoc w) v)
   \<and> socket_listeners (fst (onDocUpdate rootDoc w) v) =
       remove1 (''new-client-awareness-init'', NewClientAwarenessInitHandler (next_closure w))
         (remove1 (''server-awareness-broadcast'', AwarenessBroadcast (next_closure w))
            (remove1 (''server-update'', OnUpdate (next_closure w)) (socket_listeners v)))
   \<and> awareness_listeners (fst (onDocUpdate rootDoc w) v) =
       removeAll (''update'', AwarenessUpdate (next_closure w)) (awareness_listeners v)
   \<and> awareness (fst (onDocUpdate rootDoc w) v) = awareness v"
proof -
  have activation_trace: "trace (snd (onDocUpdate rootDoc w)) =
     trace w @
       [SocketConnect,
        SocketEmit ''client-handshake'' (Str (guid rootDoc)),
        SocketOn ''server-update'' (OnUpdate (next_closure w)),
        SocketOn ''server-awareness-broadcast'' (AwarenessBroadcast (next_closure w)),
        SocketOn ''new-client-awareness-init'' (NewClientAwarenessInitHandler (next_closure w)),
        AwarenessOn ''update'' (AwarenessUpdate (next_closure w)),
        SocketEmit ''awareness-init'' (Str (guid rootDoc))]"
    by (simp add: onDocUpdate_def setupAffineAwareness_def channel_defs Let_def)
  have activation_connected: "connected (snd (onDocUpdate rootDoc w))"
    by (simp add: onDocUpdate_def setupAffineAwareness_def channel_defs Let_def)
  have activation_awareness_listeners: "awareness_listeners (snd (onDocUpdate rootDoc w)) =
       (if (''update'', AwarenessUpdate (next_closure w)) \<in> set (awareness_listeners w)
        then awareness_listeners w
        else awareness_listeners w @ [(''update'', AwarenessUpdate (next_closure w))])"
    by (simp add: onDocUpdate_def setupAffineAwareness_def channel_defs Let_def)
  have activation_awareness: "awareness (snd (onDocUpdate rootDoc w)) = awareness w"
    by (simp add: onDocUpdate_def setupAffineAwareness_def channel_defs Let_def)
  have teardown_effects:
    "trace (fst (onDocUpdate rootDoc w) v) =
       trace v @
         [SocketEmit ''client-leave'' (Str (guid rootDoc)),
          SocketOff ''server-update'' (OnUpdate (next_closure w)),
          AwarenessOff ''update'' (AwarenessUpdate (next_closure w)),
          SocketOff ''server-awareness-broadcast'' (AwarenessBroadcast (next_closure w)),
          SocketOff ''new-client-awareness-init'' (NewClientAwarenessInitHandler (next_closure w)),
          SocketDisconnect]"
    "\<not> connected (fst (onDocUpdate rootDoc w) v)"
    "socket_listeners (fst (onDocUpdate rootDoc w) v) =
       remove1 (''new-client-awareness-init'', NewClientAwarenessInitHandler (next_closure w))
         (remove1 (''server-awareness-broadcast'', AwarenessBroadcast (next_closure w))
            (remove1 (''server-update'', OnUpdate (next_closure w)) (socket_listeners v)))"
    "awareness_listeners (fst (onDocUpdate rootDoc w) v) =
       removeAll (''update'', AwarenessUpdate (next_closure w)) (awareness_listeners v)"
    "awareness (fst (onDocUpdate rootDoc w) v) = awareness v"
    by (simp_all add: onDocUpdate_teardown teardown_trace teardown_connected
        teardown_socket_listeners teardown_awareness_listeners teardown_awareness)
  from activation_trace activation_connected onDocUpdate_socket_listeners [of rootDoc w]
    activation_awareness_listeners activation_awareness teardown_effects
  show ?thesis by simp
qed

text \<open>
  On the sample world the activation opens the channel and fills the registries, and the
  teardown closes the channel and empties them again.
\<close>

theorem onDocUpdate_order_witness:
  "\<not> connected sample_world
   \<and> connected (snd (onDocUpdate sample_doc sample_world))
   \<and> socket_listeners (snd (onDocUpdate sample_doc sample_world)) =
       [(''server-update'', OnUpdate 0),
        (''server-awareness-broadcast'', AwarenessBroadcast 0),
        (''new-client-awareness-init'', NewClientAwarenessInitHandler 0)]
   \<and> awareness_listeners (snd (onDocUpdate sample_doc sample_world)) =
       [(''update'', AwarenessUpdate 0)]
   \<and> \<not> connected (fst (onDocUpdate sample_doc sample_world)
                      (snd (onDocUpdate sample_doc sample_world)))
   \<and> socket_listeners (fst (onDocUpdate sample_doc sample_world)
                          (snd (onDocUpdate sample_doc sample_world))) = []
   \<and> awareness_listeners (fst (onDocUpdate sample_doc sample_world)
                             (snd (onDocUpdate sample_doc sample_world))) = []"
proof -
  have start: "\<not> connected sample_world" "socket_listeners sample_world = []"
    "awareness_listeners sample_world = []" "next_closure sample_world = 0"
    by (simp_all add: sample_world_def)
  show ?thesis
    using start
      onDocUpdate_order [of sample_doc sample_world "snd (onDocUpdate sample_doc sample_world)"]
    by simp
qed

text \<open>The closures of the next activation are in no registry of a well-formed world.\<close>

lemma wf_world_socket_fresh:
  assumes "wf_world w" and "closure_of l = next_closure w"
  shows "(ev, l) \<notin> set (socket_listeners w)"
proof
  assume "(ev, l) \<in> set (socket_listeners w)"
  with assms(1) have "closure_of (snd (ev, l)) < next_closure w"
    unfolding wf_world_def list_all_iff by blast
  with assms(2) show False by simp
qed

lemma wf_world_awareness_fresh:
  assumes "wf_world w" and "closure_of_awareness l = next_closure w"
  shows "(ev, l) \<notin> set (awareness_listeners w)"
proof
  assume "(ev, l) \<in> set (awareness_listeners w)"
  with assms(1) have "closure_of_awareness (snd (ev, l)) < next_closure w"
    unfolding wf_world_def list_all_iff by blast
  with assms(2) show False by simp
qed

text \<open>
  Handlers and methods keep the registries; an activation and a teardown keep the world
  well formed.
\<close>

lemma same_registries_refl: "same_registries w w"
  by (simp add: same_registries_def)

lemma same_registries_trans:
  "same_registries w w' \<Longrightarrow> same_registries w' w'' \<Longrightarrow> same_registries w w''"
  by (simp add: same_registries_def)

lemma same_registries_wf: "same_registries w w' \<Longrightarrow> wf_world w \<Longrightarrow> wf_world w'"
  by (simp add: same_registries_def wf_world_def)

lemma same_registries_log: "same_registries w (log e w)"
  by (simp add: same_registries_def log_def)

lemma same_registries_doc_load_ack: "same_registries w (snd (doc_load_ack env a w))"
  by (simp add: doc_load_ack_def same_registries_refl same_registries_log
      split: ack.splits sum.splits)

lemma same_registries_queryDocState:
  "same_registries w (snd (queryDocState env rootDoc g opts reply w))"
proof -
  have "same_registries w (snd (doc_load env rootDoc g sv reply w))" for sv
    by (cases reply)
       (auto simp: doc_load_def Let_def socket_emit_def same_registries_log
          intro: same_registries_trans [OF same_registries_log same_registries_doc_load_ack])
  then show ?thesis
    by (simp add: queryDocState_def same_registries_refl split: sum.splits)
qed

lemma same_registries_sendDocUpdate:
  "same_registries w (snd (sendDocUpdate env rootDoc g update w))"
  by (simp add: sendDocUpdate_def socket_emit_def same_registries_refl same_registries_log
      split: sum.splits)

lemma same_registries_awarenessUpdate:
  "same_registries w (snd (awarenessUpdate env rootDoc chg origin w))"
  by (simp add: awarenessUpdate_def Object_values_def Let_def socket_emit_def console_error_def
      same_registries_refl same_registries_log split: sum.splits)

lemma same_registries_awareness_emit:
  "same_registries w (snd (awareness_emit env rootDoc ls chg origin w))"
proof (induction ls arbitrary: w)
  case Nil
  show ?case by (simp add: same_registries_refl)
next
  case (Cons l ls)
  obtain k where l: "l = AwarenessUpdate k" by (cases l)
  obtain r w' where r: "awarenessUpdate env rootDoc chg origin w = (r, w')"
    by (cases "awarenessUpdate env rootDoc chg origin w")
  with same_registries_awarenessUpdate [of w env rootDoc chg origin]
  have s: "same_registries w w'" by simp
  show ?case
  proof (cases r)
    case None
    with l r same_registries_trans [OF s Cons.IH [of w']] show ?thesis by simp
  next
    case (Some e)
    with l r s show ?thesis by simp
  qed
qed

lemma same_registries_awareness_change:
  "same_registries w (snd (awareness_change env rootDoc chg origin w))"
  by (simp add: awareness_change_def same_registries_awareness_emit)

lemma same_registries_awareness_apply:
  "same_registries w (snd (awareness_apply env rootDoc b origin w))"
proof -
  let ?w1 = "log (ApplyAwarenessUpdate b origin)
               (w\<lparr>awareness := fst (applyAwarenessUpdate env (awareness w) b)\<rparr>)"
  have s: "same_registries w ?w1"
    by (simp add: same_registries_def log_def)
  show ?thesis
  proof (cases "snd (applyAwarenessUpdate env (awareness w) b)")
    case None
    with s show ?thesis by (simp add: awareness_apply_def Let_def)
  next
    case (Some chg)
    with same_registries_trans [OF s same_registries_awareness_change [of ?w1 env rootDoc chg origin]]
    show ?thesis by (simp add: awareness_apply_def Let_def)
  qed
qed

lemma same_registries_awarenessBroadcast:
  "same_registries w (snd (awarenessBroadcast env rootDoc ws au w))"
  by (simp add: awarenessBroadcast_def same_registries_refl same_registries_awareness_apply
      split: sum.splits)

lemma same_registries_onUpdate: "same_registries w (onUpdate env rootDoc k ws g u w)"
  by (simp add: onUpdate_def same_registries_refl same_registries_log split: sum.splits)

lemma same_registries_newClientAwarenessInitHandler:
  "same_registries w (snd (newClientAwarenessInitHandler env rootDoc w))"
  by (simp add: newClientAwarenessInitHandler_def socket_emit_def console_error_def
      same_registries_refl same_registries_log split: sum.splits)

lemma same_registries_run_listener:
  "same_registries w (snd (run_listener env rootDoc l m w))"
  by (cases "(env, rootDoc, l, m, w)" rule: run_listener.cases)
     (simp_all add: same_registries_refl same_registries_onUpdate
        same_registries_awarenessBroadcast same_registries_newClientAwarenessInitHandler)

lemma same_registries_socket_dispatch:
  "same_registries w (snd (socket_dispatch env rootDoc ls m w))"
proof (induction ls arbitrary: w)
  case Nil
  show ?case by (simp add: same_registries_refl)
next
  case (Cons l ls)
  obtain r w' where r: "run_listener env rootDoc l m w = (r, w')"
    by (cases "run_listener env rootDoc l m w")
  with same_registries_run_listener [of w env rootDoc l m]
  have s: "same_registries w w'" by simp
  show ?case
  proof (cases r)
    case None
    with r same_registries_trans [OF s Cons.IH [of w']] show ?thesis by simp
  next
    case (Some e)
    with r s show ?thesis by simp
  qed
qed

lemma same_registries_socket_receive:
  "same_registries w (socket_receive env rootDoc m w)"
proof -
  let ?ls = "map snd (filter (\<lambda>r. fst r = event_name m) (socket_listeners w))"
  obtain r w' where r: "socket_dispatch env rootDoc ?ls m w = (r, w')"
    by (cases "socket_dispatch env rootDoc ?ls m w")
  with same_registries_socket_dispatch [of w env rootDoc ?ls m]
  have s: "same_registries w w'" by simp
  show ?thesis
  proof (cases r)
    case None
    with r s show ?thesis by (simp add: socket_receive_def)
  next
    case (Some e)
    with r same_registries_trans [OF s same_registries_log [of w' "Uncaught e"]]
    show ?thesis by (simp add: socket_receive_def)
  qed
qed

lemma wf_world_onDocUpdate:
  assumes "wf_world w"
  shows "wf_world (snd (onDocUpdate rootDoc w))"
proof -
  have a: "(''update'', AwarenessUpdate (next_closure w)) \<notin> set (awareness_listeners w)"
    using assms by (simp add: wf_world_awareness_fresh)
  have n: "next_closure (snd (onDocUpdate rootDoc w)) = Suc (next_closure w)"
    by (simp add: onDocUpdate_def setupAffineAwareness_def channel_defs Let_def)
  from assms show ?thesis
    by (auto simp: wf_world_def n onDocUpdate_socket_listeners
          onDocUpdate_awareness_listeners [OF a] list_all_iff)
qed

lemma wf_world_teardown:
  assumes "wf_world v"
  shows "wf_world (teardown rootDoc k (destroyAwareness k) v)"
proof -
  have n: "next_closure (teardown rootDoc k (destroyAwareness k) v) = next_closure v"
    by (simp add: teardown_def destroyAwareness_def channel_defs Let_def)
  have s: "set (socket_listeners (teardown rootDoc k (destroyAwareness k) v))
             \<subseteq> set (socket_listeners v)"
    unfolding teardown_socket_listeners
    by (meson set_remove1_subset subset_trans)
  have a: "set (awareness_listeners (teardown rootDoc k (destroyAwareness k) v))
             \<subseteq> set (awareness_listeners v)"
    by (auto simp: teardown_awareness_listeners)
  from assms s a show ?thesis
    unfolding wf_world_def list_all_iff n by blast
qed

text \<open>The first teardown gives back the registries as they were before the activation.\<close>

lemma teardown_releases_socket:
  assumes "wf_world w"
    and "socket_listeners v = socket_listeners (snd (onDocUpdate rootDoc w))"
  shows "socket_listeners (fst (onDocUpdate rootDoc w) v) = socket_listeners w"
proof -
  have "(''server-update'', OnUpdate (next_closure w)) \<notin> set (socket_listeners w)"
    and "(''server-awareness-broadcast'', AwarenessBroadcast (next_closure w))
           \<notin> set (socket_listeners w)"
    and "(''new-client-awareness-init'', NewClientAwarenessInitHandler (next_closure w))
           \<notin> set (socket_listeners w)"
    using assms(1) by (simp_all add: wf_world_socket_fresh)
  then show ?thesis
    by (simp add: onDocUpdate_teardown teardown_socket_listeners assms(2)
        onDocUpdate_socket_listeners remove1_append)
qed

lemma teardown_releases_awareness:
  assumes "wf_world w"
    and "awareness_listeners v = awareness_listeners (snd (onDocUpdate rootDoc w))"
  shows "awareness_listeners (fst (onDocUpdate rootDoc w) v) = awareness_listeners w"
proof -
  have "(''update'', AwarenessUpdate (next_closure w)) \<notin> set (awareness_listeners w)"
    using assms(1) by (simp add: wf_world_awareness_fresh)
  then show ?thesis
    by (simp add: onDocUpdate_teardown teardown_awareness_listeners assms(2)
        onDocUpdate_awareness_listeners)
qed

text \<open>A teardown that finds none of its listeners registered leaves the registries alone.\<close>

lemma teardown_again_socket:
  assumes "wf_world w" and "socket_listeners v = socket_listeners w"
  shows "socket_listeners (fst (onDocUpdate rootDoc w) v) = socket_listeners w"
proof -
  have "(''server-update'', OnUpdate (next_closure w)) \<notin> set (socket_listeners w)"
    and "(''server-awareness-broadcast'', AwarenessBroadcast (next_closure w))
           \<notin> set (socket_listeners w)"
    and "(''new-client-awareness-init'', NewClientAwarenessInitHandler (next_closure w))
           \<notin> set (socket_listeners w)"
    using assms(1) by (simp_all add: wf_world_socket_fresh)
  then show ?thesis
    by (simp add: onDocUpdate_teardown teardown_socket_listeners assms(2) remove1_idem)
qed

lemma teardown_again_awareness:
  assumes "wf_world w" and "awareness_listeners v = awareness_listeners w"
  shows "awareness_listeners (fst (onDocUpdate rootDoc w) v) = awareness_listeners w"
proof -
  have "(''update'', AwarenessUpdate (next_closure w)) \<notin> set (awareness_listeners w)"
    using assms(1) by (simp add: wf_world_awareness_fresh)
  then show ?thesis
    by (simp add: onDocUpdate_teardown teardown_awareness_listeners assms(2))
qed

text \<open>
  C2, as the code has it. The teardown is a total function of the world: it returns
  normally every time. Called twice on a world whose registries are as the activation left
  them, the second call leaves the listener registries, the connection flag and the
  awareness replica as the first call left them, and the registries are those from before
  the activation. There is no guard against a second call, and each call emits its own
  \<^verbatim>\<open>client-leave\<close>: two calls emit two.
\<close>

theorem teardown_twice:
  assumes "wf_world w"
    and "socket_listeners v = socket_listeners (snd (onDocUpdate rootDoc w))"
    and "awareness_listeners v = awareness_listeners (snd (onDocUpdate rootDoc w))"
  shows "socket_listeners (fst (onDocUpdate rootDoc w) (fst (onDocUpdate rootDoc w) v))
           = socket_listeners (fst (onDocUpdate rootDoc w) v)
       \<and> awareness_listeners (fst (onDocUpdate rootDoc w) (fst (onDocUpdate rootDoc w) v))
           = awareness_listeners (fst (onDocUpdate rootDoc w) v)
       \<and> socket_listeners (fst (onDocUpdate rootDoc w) v) = socket_listeners w
       \<and> awareness_listeners (fst (onDocUpdate rootDoc w) v) = awareness_listeners w
       \<and> connected (fst (onDocUpdate rootDoc w) (fst (onDocUpdate rootDoc w) v))
           = connected (fst (onDocUpdate rootDoc w) v)
       \<and> awareness (fst (onDocUpdate rootDoc w) (fst (onDocUpdate rootDoc w) v))
           = awareness (fst (onDocUpdate rootDoc w) v)
       \<and> count_emits ''client-leave''
           (trace (fst (onDocUpdate rootDoc w) (fst (onDocUpdate rootDoc w) v)))
           = count_emits ''client-leave'' (trace v) + 2"
proof -
  let ?td = "fst (onDocUpdate rootDoc w)"
  have s1: "socket_listeners (?td v) = socket_listeners w"
    using assms(1,2) by (rule teardown_releases_socket)
  have a1: "awareness_listeners (?td v) = awareness_listeners w"
    using assms(1,3) by (rule teardown_releases_awareness)
  have s2: "socket_listeners (?td (?td v)) = socket_listeners w"
    using assms(1) s1 by (rule teardown_again_socket)
  have a2: "awareness_listeners (?td (?td v)) = awareness_listeners w"
    using assms(1) a1 by (rule teardown_again_awareness)
  have c: "connected (?td (?td v)) = connected (?td v)"
    by (simp add: onDocUpdate_teardown teardown_connected)
  have aw: "awareness (?td (?td v)) = awareness (?td v)"
    by (simp add: onDocUpdate_teardown teardown_awareness)
  have n: "count_emits ''client-leave'' (trace (?td (?td v)))
             = count_emits ''client-leave'' (trace v) + 2"
    by (simp add: onDocUpdate_teardown teardown_trace count_emits_append)
  from s1 s2 a1 a2 c aw n show ?thesis by simp
qed

theorem teardown_twice_witness:
  "wf_world sample_world
   \<and> socket_listeners sample_active = socket_listeners (snd (onDocUpdate sample_doc sample_world))
   \<and> awareness_listeners sample_active
       = awareness_listeners (snd (onDocUpdate sample_doc sample_world))
   \<and> count_emits ''client-leave'' (trace sample_active) = 0
   \<and> count_emits ''client-leave''
       (trace (fst (onDocUpdate sample_doc sample_world)
                 (fst (onDocUpdate sample_doc sample_world) sample_active))) = 2
   \<and> socket_listeners (fst (onDocUpdate sample_doc sample_world)
                 (fst (onDocUpdate sample_doc sample_world) sample_active)) = []"
proof -
  have wf: "wf_world sample_world"
    by (simp add: wf_world_def sample_world_def)
  have s: "socket_listeners sample_active
             = socket_listeners (snd (onDocUpdate sample_doc sample_world))"
    by (simp add: sample_active_def)
  have a: "awareness_listeners sample_active
             = awareness_listeners (snd (onDocUpdate sample_doc sample_world))"
    by (simp add: sample_active_def)
  have t0: "count_emits ''client-leave'' (trace sample_active) = 0"
    by code_simp
  have l0: "socket_listeners sample_world = []"
    by (simp add: sample_world_def)
  show ?thesis
    using wf s a t0 l0 teardown_twice [OF wf s a]
    by simp
qed

text \<open>
  One activation of the sample world followed by two calls of its teardown: the trace
  holds two \<^verbatim>\<open>client-leave\<close> emissions, not one.
\<close>

theorem teardown_twice_counterexample:
  "count_emits ''client-leave''
     (trace (fst (onDocUpdate sample_doc sample_world)
               (fst (onDocUpdate sample_doc sample_world)
                  (snd (onDocUpdate sample_doc sample_world))))) \<noteq> 1"
  by code_simp

text \<open>
  C9, as the code has it. The setup registers the broadcast handler, the new-client
  handler and the local change listener, in this order. The teardown deregisters all
  three: the local change listener first, then the broadcast handler, then the new-client
  handler. The two channel handlers leave in the order in which they came.
\<close>

theorem awareness_teardown_order:
  "registered (trace (snd (setupAffineAwareness k rootDoc w))) =
     registered (trace w) @
       [OnSocket ''server-awareness-broadcast'' (AwarenessBroadcast k),
        OnSocket ''new-client-awareness-init'' (NewClientAwarenessInitHandler k),
        OnAwareness ''update'' (AwarenessUpdate k)]
   \<and> deregistered (trace (fst (setupAffineAwareness k rootDoc w) v)) =
       deregistered (trace v) @
         [OnAwareness ''update'' (AwarenessUpdate k),
          OnSocket ''server-awareness-broadcast'' (AwarenessBroadcast k),
          OnSocket ''new-client-awareness-init'' (NewClientAwarenessInitHandler k)]"
  by (simp add: setupAffineAwareness_def destroyAwareness_def channel_defs Let_def
      registered_append deregistered_append)

text \<open>
  On the sample world, whose trace is empty, the deregistrations of the teardown are not
  the registrations of the setup reversed.
\<close>

theorem awareness_teardown_order_counterexample:
  "deregistered (trace (fst (setupAffineAwareness 0 sample_doc sample_world)
                          (snd (setupAffineAwareness 0 sample_doc sample_world))))
   \<noteq> rev (registered (trace (snd (setupAffineAwareness 0 sample_doc sample_world))))"
  by code_simp

subsection \<open>The past of a world does not matter\<close>

text \<open>
  No operation reads the trace: run on a world with a longer past, it does the same and
  leaves the same world with that longer past.
\<close>

lemma earlier_fields:
  "connected (earlier p w) = connected w"
  "socket_listeners (earlier p w) = socket_listeners w"
  "awareness_listeners (earlier p w) = awareness_listeners w"
  "awareness (earlier p w) = awareness w"
  "next_closure (earlier p w) = next_closure w"
  "trace (earlier p w) = p @ trace w"
  by (simp_all add: earlier_def)

lemma log_earlier: "log e (earlier p w) = earlier p (log e w)"
  by (simp add: log_def earlier_def)

lemma channel_earlier:
  "socket_connect (earlier p w) = earlier p (socket_connect w)"
  "socket_disconnect (earlier p w) = earlier p (socket_disconnect w)"
  "socket_emit ev m (earlier p w) = earlier p (socket_emit ev m w)"
  "socket_on ev l (earlier p w) = earlier p (socket_on ev l w)"
  "socket_off ev l (earlier p w) = earlier p (socket_off ev l w)"
  "awareness_on ev a (earlier p w) = earlier p (awareness_on ev a w)"
  "awareness_off ev a (earlier p w) = earlier p (awareness_off ev a w)"
  "console_warn s (earlier p w) = earlier p (console_warn s w)"
  "console_error e (earlier p w) = earlier p (console_error e w)"
  by (simp_all add: channel_defs earlier_def)

lemma earlier_awareness_update:
  "(earlier p w)\<lparr>awareness := a\<rparr> = earlier p (w\<lparr>awareness := a\<rparr>)"
  by (simp add: earlier_def)

lemma earlier_next_closure_update:
  "(earlier p w)\<lparr>next_closure := n\<rparr> = earlier p (w\<lparr>next_closure := n\<rparr>)"
  by (simp add: earlier_def)

lemma doc_load_ack_earlier:
  "doc_load_ack env a (earlier p w) = apsnd (earlier p) (doc_load_ack env a w)"
  by (simp add: doc_load_ack_def log_earlier split: ack.splits sum.splits)

lemma doc_load_earlier:
  "doc_load env rootDoc g sv reply (earlier p w) =
     apsnd (earlier p) (doc_load env rootDoc g sv reply w)"
  by (simp add: doc_load_def Let_def channel_earlier doc_load_ack_earlier split: option.splits)

lemma queryDocState_earlier:
  "queryDocState env rootDoc g opts reply (earlier p w) =
     apsnd (earlier p) (queryDocState env rootDoc g opts reply w)"
  by (simp add: queryDocState_def doc_load_earlier split: sum.splits)

lemma sendDocUpdate_earlier:
  "sendDocUpdate env rootDoc g update (earlier p w) =
     apsnd (earlier p) (sendDocUpdate env rootDoc g update w)"
  by (simp add: sendDocUpdate_def channel_earlier split: sum.splits)

lemma awarenessUpdate_earlier:
  "awarenessUpdate env rootDoc chg origin (earlier p w) =
     apsnd (earlier p) (awarenessUpdate env rootDoc chg origin w)"
  by (simp add: awarenessUpdate_def channel_earlier earlier_fields Let_def split: sum.splits)

lemma newClientAwarenessInitHandler_earlier:
  "newClientAwarenessInitHandler env rootDoc (earlier p w) =
     apsnd (earlier p) (newClientAwarenessInitHandler env rootDoc w)"
  by (simp add: newClientAwarenessInitHandler_def channel_earlier earlier_fields Let_def
      split: sum.splits)

lemma awareness_emit_earlier:
  "awareness_emit env rootDoc ls chg origin (earlier p w) =
     apsnd (earlier p) (awareness_emit env rootDoc ls chg origin w)"
proof (induction ls arbitrary: w)
  case Nil
  show ?case by simp
next
  case (Cons l ls)
  obtain k where l: "l = AwarenessUpdate k" by (cases l)
  obtain r w' where r: "awarenessUpdate env rootDoc chg origin w = (r, w')"
    by (cases "awarenessUpdate env rootDoc chg origin w")
  then have "awarenessUpdate env rootDoc chg origin (earlier p w) = (r, earlier p w')"
    by (simp add: awarenessUpdate_earlier)
  with l r Cons.IH [of w'] show ?case by (cases r) simp_all
qed

lemma awareness_change_earlier:
  "awareness_change env rootDoc chg origin (earlier p w) =
     apsnd (earlier p) (awareness_change env rootDoc chg origin w)"
  by (simp add: awareness_change_def awareness_emit_earlier earlier_fields)

lemma awareness_apply_earlier:
  "awareness_apply env rootDoc b origin (earlier p w) =
     apsnd (earlier p) (awareness_apply env rootDoc b origin w)"
  by (simp add: awareness_apply_def Let_def earlier_awareness_update log_earlier
      awareness_change_earlier earlier_fields split: option.splits)

lemma awarenessBroadcast_earlier:
  "awarenessBroadcast env rootDoc ws au (earlier p w) =
     apsnd (earlier p) (awarenessBroadcast env rootDoc ws au w)"
  by (simp add: awarenessBroadcast_def awareness_apply_earlier split: sum.splits)

lemma onUpdate_earlier:
  "onUpdate env rootDoc k ws g u (earlier p w) = earlier p (onUpdate env rootDoc k ws g u w)"
  by (simp add: onUpdate_def log_earlier split: sum.splits)

lemma run_listener_earlier:
  "run_listener env rootDoc l m (earlier p w) =
     apsnd (earlier p) (run_listener env rootDoc l m w)"
  by (cases "(env, rootDoc, l, m, w)" rule: run_listener.cases)
     (simp_all add: onUpdate_earlier awarenessBroadcast_earlier
        newClientAwarenessInitHandler_earlier)

lemma socket_dispatch_earlier:
  "socket_dispatch env rootDoc ls m (earlier p w) =
     apsnd (earlier p) (socket_dispatch env rootDoc ls m w)"
proof (induction ls arbitrary: w)
  case Nil
  show ?case by simp
next
  case (Cons l ls)
  obtain r w' where r: "run_listener env rootDoc l m w = (r, w')"
    by (cases "run_listener env rootDoc l m w")
  then have "run_listener env rootDoc l m (earlier p w) = (r, earlier p w')"
    by (simp add: run_listener_earlier)
  with r Cons.IH [of w'] show ?case by (cases r) simp_all
qed

lemma socket_receive_earlier:
  "socket_receive env rootDoc m (earlier p w) = earlier p (socket_receive env rootDoc m w)"
proof -
  obtain r w' where r:
    "socket_dispatch env rootDoc
       (map snd (filter (\<lambda>r. fst r = event_name m) (socket_listeners w))) m w = (r, w')"
    by (cases "socket_dispatch env rootDoc
       (map snd (filter (\<lambda>r. fst r = event_name m) (socket_listeners w))) m w")
  then show ?thesis
    by (cases r)
       (simp_all add: socket_receive_def socket_dispatch_earlier log_earlier earlier_fields)
qed

lemma destroyAwareness_earlier:
  "destroyAwareness k (earlier p w) = earlier p (destroyAwareness k w)"
  by (simp add: destroyAwareness_def channel_earlier)

lemma teardown_earlier:
  "teardown rootDoc k (destroyAwareness k) (earlier p w) =
     earlier p (teardown rootDoc k (destroyAwareness k) w)"
  by (simp add: teardown_def channel_earlier destroyAwareness_earlier)

lemma onDocUpdate_earlier:
  "onDocUpdate rootDoc (earlier p w) = apsnd (earlier p) (onDocUpdate rootDoc w)"
  by (simp add: onDocUpdate_def setupAffineAwareness_def Let_def channel_earlier
      earlier_next_closure_update earlier_fields)

subsection \<open>The identifier of the data source\<close>

lemma adapter_fields:
  "adapter_queryDocState (fst (createAffineDataSource env i rootDoc w)) = queryDocState env rootDoc"
  "adapter_sendDocUpdate (fst (createAffineDataSource env i rootDoc w)) = sendDocUpdate env rootDoc"
  "adapter_onDocUpdate (fst (createAffineDataSource env i rootDoc w)) = onDocUpdate rootDoc"
  by (simp_all add: createAffineDataSource_def Let_def)

lemma fst_createAffineDataSource:
  "fst (createAffineDataSource env i rootDoc w) = fst (createAffineDataSource env j rootDoc v)"
  by (simp add: createAffineDataSource_def Let_def)

lemma snd_createAffineDataSource:
  "snd (createAffineDataSource env i rootDoc w) =
     earlier (trace w @ warning i rootDoc) (w\<lparr>trace := []\<rparr>)"
  by (simp add: createAffineDataSource_def Let_def console_warn_def log_def earlier_def
      warning_def)

text \<open>Every teardown a session holds was returned by \<^verbatim>\<open>onDocUpdate\<close>.\<close>

lemma step_earlier:
  assumes "\<forall>f \<in> set (teardowns s). \<forall>p v. f (earlier p v) = earlier p (f v)"
  shows "step env rootDoc (fst (createAffineDataSource env i rootDoc w)) (earlier_session p s) a
           = earlier_session p
               (step env rootDoc (fst (createAffineDataSource env i rootDoc w)) s a)"
proof (cases a)
  case (CallQueryDocState g opts reply)
  then show ?thesis
    by (simp add: earlier_session_def adapter_fields queryDocState_earlier Let_def)
next
  case (CallSendDocUpdate g update)
  then show ?thesis
    by (simp add: earlier_session_def adapter_fields sendDocUpdate_earlier Let_def)
next
  case CallOnDocUpdate
  then show ?thesis
    by (simp add: earlier_session_def adapter_fields onDocUpdate_earlier Let_def)
next
  case (CallTeardown n)
  show ?thesis
  proof (cases "n < length (teardowns s)")
    case True
    with assms
    have "(teardowns s ! n) (earlier p (world_of s)) = earlier p ((teardowns s ! n) (world_of s))"
      by simp
    with True CallTeardown show ?thesis
      by (simp add: earlier_session_def)
  next
    case False
    with CallTeardown show ?thesis
      by (simp add: earlier_session_def)
  qed
next
  case (Deliver m)
  then show ?thesis
    by (simp add: earlier_session_def socket_receive_earlier)
next
  case (LocalChange chg origin)
  then show ?thesis
    by (simp add: earlier_session_def awareness_change_earlier)
qed

lemma step_keeps_teardowns:
  assumes "\<forall>f \<in> set (teardowns s). \<forall>p v. f (earlier p v) = earlier p (f v)"
  shows "\<forall>f \<in> set (teardowns
                      (step env rootDoc (fst (createAffineDataSource env i rootDoc w)) s a)).
           \<forall>p v. f (earlier p v) = earlier p (f v)"
  using assms
  by (cases a) (simp_all add: adapter_fields onDocUpdate_teardown teardown_earlier Let_def)

lemma foldl_step_earlier:
  assumes "\<forall>f \<in> set (teardowns s). \<forall>p v. f (earlier p v) = earlier p (f v)"
  shows "foldl (step env rootDoc (fst (createAffineDataSource env i rootDoc w)))
           (earlier_session p s) acts
         = earlier_session p
             (foldl (step env rootDoc (fst (createAffineDataSource env i rootDoc w))) s acts)"
  using assms
proof (induction acts arbitrary: s)
  case Nil
  show ?case by simp
next
  case (Cons a acts)
  from Cons.prems
  have "\<forall>f \<in> set (teardowns
                     (step env rootDoc (fst (createAffineDataSource env i rootDoc w)) s a)).
          \<forall>p v. f (earlier p v) = earlier p (f v)"
    by (rule step_keeps_teardowns)
  from Cons.IH [OF this] Cons.prems show ?case
    by (simp add: step_earlier)
qed

text \<open>
  A session is the session of the same actions on the world without its past, with the
  past and the warning of the creation put back in front.
\<close>

lemma run_factors:
  "run env i rootDoc acts w =
     earlier_session (trace w @ warning i rootDoc)
       (foldl (step env rootDoc (fst (createAffineDataSource env i rootDoc w)))
          \<lparr>world_of = w\<lparr>trace := []\<rparr>, teardowns = [], outcomes = []\<rparr> acts)"
proof -
  have "\<lparr>world_of = snd (createAffineDataSource env i rootDoc w), teardowns = [], outcomes = []\<rparr>
        = earlier_session (trace w @ warning i rootDoc)
            \<lparr>world_of = w\<lparr>trace := []\<rparr>, teardowns = [], outcomes = []\<rparr>"
    by (simp add: snd_createAffineDataSource earlier_session_def)
  then show ?thesis
    by (simp add: run_def Let_def foldl_step_earlier)
qed

text \<open>Every world a session reaches from a well-formed world is well formed.\<close>

lemma wf_world_createAffineDataSource:
  "wf_world w \<Longrightarrow> wf_world (snd (createAffineDataSource env i rootDoc w))"
  by (simp add: createAffineDataSource_def Let_def console_warn_def
      same_registries_wf [OF same_registries_log])

lemma wf_world_step:
  assumes "wf_world (world_of s)"
    and "\<forall>f \<in> set (teardowns s). \<forall>v. wf_world v \<longrightarrow> wf_world (f v)"
  shows "wf_world (world_of (step env rootDoc (fst (createAffineDataSource env i rootDoc w)) s a))
       \<and> (\<forall>f \<in> set (teardowns
                        (step env rootDoc (fst (createAffineDataSource env i rootDoc w)) s a)).
            \<forall>v. wf_world v \<longrightarrow> wf_world (f v))"
proof (cases a)
  case (CallQueryDocState g opts reply)
  with assms show ?thesis
    by (simp add: adapter_fields Let_def same_registries_wf [OF same_registries_queryDocState])
next
  case (CallSendDocUpdate g update)
  with assms show ?thesis
    by (simp add: adapter_fields Let_def same_registries_wf [OF same_registries_sendDocUpdate])
next
  case CallOnDocUpdate
  with assms show ?thesis
    by (simp add: adapter_fields Let_def wf_world_onDocUpdate onDocUpdate_teardown
        wf_world_teardown)
next
  case (CallTeardown n)
  with assms show ?thesis
    by simp
next
  case (Deliver m)
  with assms show ?thesis
    by (simp add: same_registries_wf [OF same_registries_socket_receive])
next
  case (LocalChange chg origin)
  with assms show ?thesis
    by (simp add: same_registries_wf [OF same_registries_awareness_change])
qed

lemma wf_world_foldl_step:
  assumes "wf_world (world_of s)"
    and "\<forall>f \<in> set (teardowns s). \<forall>v. wf_world v \<longrightarrow> wf_world (f v)"
  shows "wf_world (world_of
           (foldl (step env rootDoc (fst (createAffineDataSource env i rootDoc w))) s acts))"
  using assms
proof (induction acts arbitrary: s)
  case Nil
  then show ?case by simp
next
  case (Cons a acts)
  from wf_world_step [OF Cons.prems, of env rootDoc i w a] Cons.IH show ?case
    by simp
qed

lemma wf_world_run:
  "wf_world w \<Longrightarrow> wf_world (world_of (run env i rootDoc acts w))"
  by (simp add: run_def Let_def wf_world_foldl_step wf_world_createAffineDataSource)

text \<open>Every message a session emits has \<^verbatim>\<open>rootDoc.guid\<close> as its room.\<close>

lemma all_scoped_log:
  "all_scoped rootDoc w \<Longrightarrow> scoped rootDoc e \<Longrightarrow> all_scoped rootDoc (log e w)"
  by (simp add: all_scoped_def log_def)

lemma all_scoped_awareness:
  "all_scoped rootDoc (w\<lparr>awareness := a\<rparr>) = all_scoped rootDoc w"
  by (simp add: all_scoped_def)

lemma all_scoped_queryDocState:
  "all_scoped rootDoc w \<Longrightarrow> all_scoped rootDoc (snd (queryDocState env rootDoc g opts reply w))"
  by (simp add: queryDocState_def doc_load_def doc_load_ack_def Let_def socket_emit_def
      all_scoped_log split: sum.splits option.splits ack.splits)

lemma all_scoped_sendDocUpdate:
  "all_scoped rootDoc w \<Longrightarrow> all_scoped rootDoc (snd (sendDocUpdate env rootDoc g update w))"
  by (simp add: sendDocUpdate_def socket_emit_def all_scoped_log split: sum.splits)

lemma all_scoped_awarenessUpdate:
  "all_scoped rootDoc w \<Longrightarrow> all_scoped rootDoc (snd (awarenessUpdate env rootDoc chg origin w))"
  by (simp add: awarenessUpdate_def Object_values_def Let_def socket_emit_def console_error_def
      all_scoped_log split: sum.splits)

lemma all_scoped_awareness_emit:
  "all_scoped rootDoc w \<Longrightarrow> all_scoped rootDoc (snd (awareness_emit env rootDoc ls chg origin w))"
proof (induction ls arbitrary: w)
  case Nil
  then show ?case by simp
next
  case (Cons l ls)
  obtain k where l: "l = AwarenessUpdate k" by (cases l)
  obtain r w' where r: "awarenessUpdate env rootDoc chg origin w = (r, w')"
    by (cases "awarenessUpdate env rootDoc chg origin w")
  with all_scoped_awarenessUpdate [OF Cons.prems, of env chg origin]
  have s: "all_scoped rootDoc w'" by simp
  with l r Cons.IH [of w'] show ?case by (cases r) simp_all
qed

lemma all_scoped_awareness_change:
  "all_scoped rootDoc w \<Longrightarrow> all_scoped rootDoc (snd (awareness_change env rootDoc chg origin w))"
  by (simp add: awareness_change_def all_scoped_awareness_emit)

lemma all_scoped_awareness_apply:
  "all_scoped rootDoc w \<Longrightarrow> all_scoped rootDoc (snd (awareness_apply env rootDoc b origin w))"
  by (simp add: awareness_apply_def Let_def all_scoped_awareness_change all_scoped_log
      all_scoped_awareness split: option.splits)

lemma all_scoped_awarenessBroadcast:
  "all_scoped rootDoc w \<Longrightarrow> all_scoped rootDoc (snd (awarenessBroadcast env rootDoc ws au w))"
  by (simp add: awarenessBroadcast_def all_scoped_awareness_apply split: sum.splits)

lemma all_scoped_onUpdate:
  "all_scoped rootDoc w \<Longrightarrow> all_scoped rootDoc (onUpdate env rootDoc k ws g u w)"
  by (simp add: onUpdate_def all_scoped_log split: sum.splits)

lemma all_scoped_newClientAwarenessInitHandler:
  "all_scoped rootDoc w \<Longrightarrow>
     all_scoped rootDoc (snd (newClientAwarenessInitHandler env rootDoc w))"
  by (simp add: newClientAwarenessInitHandler_def Let_def socket_emit_def console_error_def
      all_scoped_log split: sum.splits)

lemma all_scoped_run_listener:
  "all_scoped rootDoc w \<Longrightarrow> all_scoped rootDoc (snd (run_listener env rootDoc l m w))"
  by (cases "(env, rootDoc, l, m, w)" rule: run_listener.cases)
     (simp_all add: all_scoped_onUpdate all_scoped_awarenessBroadcast
        all_scoped_newClientAwarenessInitHandler)

lemma all_scoped_socket_dispatch:
  "all_scoped rootDoc w \<Longrightarrow> all_scoped rootDoc (snd (socket_dispatch env rootDoc ls m w))"
proof (induction ls arbitrary: w)
  case Nil
  then show ?case by simp
next
  case (Cons l ls)
  obtain r w' where r: "run_listener env rootDoc l m w = (r, w')"
    by (cases "run_listener env rootDoc l m w")
  with all_scoped_run_listener [OF Cons.prems, of env l m]
  have s: "all_scoped rootDoc w'" by simp
  with r Cons.IH [of w'] show ?case by (cases r) simp_all
qed

lemma all_scoped_socket_receive:
  assumes "all_scoped rootDoc w"
  shows "all_scoped rootDoc (socket_receive env rootDoc m w)"
proof -
  let ?ls = "map snd (filter (\<lambda>r. fst r = event_name m) (socket_listeners w))"
  obtain r w' where r: "socket_dispatch env rootDoc ?ls m w = (r, w')"
    by (cases "socket_dispatch env rootDoc ?ls m w")
  with all_scoped_socket_dispatch [OF assms, of env ?ls m]
  have s: "all_scoped rootDoc w'" by simp
  with r show ?thesis
    by (cases r) (simp_all add: socket_receive_def all_scoped_log)
qed

lemma all_scoped_onDocUpdate:
  "all_scoped rootDoc w \<Longrightarrow> all_scoped rootDoc (snd (onDocUpdate rootDoc w))"
  by (simp add: all_scoped_def onDocUpdate_def setupAffineAwareness_def channel_defs Let_def)

lemma all_scoped_teardown:
  "all_scoped rootDoc v \<Longrightarrow> all_scoped rootDoc (teardown rootDoc k (destroyAwareness k) v)"
  by (simp add: all_scoped_def teardown_trace)

lemma all_scoped_createAffineDataSource:
  "all_scoped rootDoc w \<Longrightarrow> all_scoped rootDoc (snd (createAffineDataSource env i rootDoc w))"
  by (simp add: createAffineDataSource_def Let_def console_warn_def all_scoped_log)

lemma all_scoped_step:
  assumes "all_scoped rootDoc (world_of s)"
    and "\<forall>f \<in> set (teardowns s). \<forall>v. all_scoped rootDoc v \<longrightarrow> all_scoped rootDoc (f v)"
  shows "all_scoped rootDoc
           (world_of (step env rootDoc (fst (createAffineDataSource env i rootDoc w)) s a))
       \<and> (\<forall>f \<in> set (teardowns
                        (step env rootDoc (fst (createAffineDataSource env i rootDoc w)) s a)).
            \<forall>v. all_scoped rootDoc v \<longrightarrow> all_scoped rootDoc (f v))"
proof (cases a)
  case (CallQueryDocState g opts reply)
  with assms show ?thesis
    by (simp add: adapter_fields Let_def all_scoped_queryDocState)
next
  case (CallSendDocUpdate g update)
  with assms show ?thesis
    by (simp add: adapter_fields Let_def all_scoped_sendDocUpdate)
next
  case CallOnDocUpdate
  with assms show ?thesis
    by (simp add: adapter_fields Let_def all_scoped_onDocUpdate onDocUpdate_teardown
        all_scoped_teardown)
next
  case (CallTeardown n)
  with assms show ?thesis
    by simp
next
  case (Deliver m)
  with assms show ?thesis
    by (simp add: all_scoped_socket_receive)
next
  case (LocalChange chg origin)
  with assms show ?thesis
    by (simp add: all_scoped_awareness_change)
qed

lemma all_scoped_foldl_step:
  assumes "all_scoped rootDoc (world_of s)"
    and "\<forall>f \<in> set (teardowns s). \<forall>v. all_scoped rootDoc v \<longrightarrow> all_scoped rootDoc (f v)"
  shows "all_scoped rootDoc (world_of
           (foldl (step env rootDoc (fst (createAffineDataSource env i rootDoc w))) s acts))"
  using assms
proof (induction acts arbitrary: s)
  case Nil
  then show ?case by simp
next
  case (Cons a acts)
  from all_scoped_step [OF Cons.prems, of env i w a] Cons.IH show ?case
    by simp
qed

lemma all_scoped_run:
  "all_scoped rootDoc w \<Longrightarrow> all_scoped rootDoc (world_of (run env i rootDoc acts w))"
  by (simp add: run_def Let_def all_scoped_foldl_step all_scoped_createAffineDataSource)

text \<open>
  C10. Two sessions that differ only in the \<^verbatim>\<open>id\<close> given to
  \<^verbatim>\<open>createAffineDataSource\<close> settle every promise alike, leave the same registries,
  connection flag and awareness replica, and leave the same trace once the console
  warnings are taken out: every emission, registration and callback is the same. Every
  message a session emits is scoped by \<^verbatim>\<open>rootDoc.guid\<close>, whatever the \<^verbatim>\<open>id\<close>. The
  creation itself changes the world by one console warning when \<^verbatim>\<open>id\<close> is not
  \<^verbatim>\<open>rootDoc.guid\<close> and not at all when it is.
\<close>

theorem id_does_not_reach_the_wire:
  "outcomes (run env id1 rootDoc acts w) = outcomes (run env id2 rootDoc acts w)
   \<and> wire (trace (world_of (run env id1 rootDoc acts w)))
       = wire (trace (world_of (run env id2 rootDoc acts w)))
   \<and> socket_listeners (world_of (run env id1 rootDoc acts w))
       = socket_listeners (world_of (run env id2 rootDoc acts w))
   \<and> awareness_listeners (world_of (run env id1 rootDoc acts w))
       = awareness_listeners (world_of (run env id2 rootDoc acts w))
   \<and> connected (world_of (run env id1 rootDoc acts w))
       = connected (world_of (run env id2 rootDoc acts w))
   \<and> awareness (world_of (run env id1 rootDoc acts w))
       = awareness (world_of (run env id2 rootDoc acts w))
   \<and> (id1 \<noteq> guid rootDoc \<longrightarrow>
        snd (createAffineDataSource env id1 rootDoc w) =
          w\<lparr>trace := trace w @ [ConsoleWarn ''important!! please use doc.guid as roomName'']\<rparr>)
   \<and> (id1 = guid rootDoc \<longrightarrow> snd (createAffineDataSource env id1 rootDoc w) = w)
   \<and> (all_scoped rootDoc w \<longrightarrow> all_scoped rootDoc (world_of (run env id1 rootDoc acts w)))"
proof -
  have same: "fst (createAffineDataSource env id1 rootDoc w)
                = fst (createAffineDataSource env id2 rootDoc w)"
    by (rule fst_createAffineDataSource)
  have runs: "outcomes (run env id1 rootDoc acts w) = outcomes (run env id2 rootDoc acts w)
   \<and> wire (trace (world_of (run env id1 rootDoc acts w)))
       = wire (trace (world_of (run env id2 rootDoc acts w)))
   \<and> socket_listeners (world_of (run env id1 rootDoc acts w))
       = socket_listeners (world_of (run env id2 rootDoc acts w))
   \<and> awareness_listeners (world_of (run env id1 rootDoc acts w))
       = awareness_listeners (world_of (run env id2 rootDoc acts w))
   \<and> connected (world_of (run env id1 rootDoc acts w))
       = connected (world_of (run env id2 rootDoc acts w))
   \<and> awareness (world_of (run env id1 rootDoc acts w))
       = awareness (world_of (run env id2 rootDoc acts w))"
    by (simp add: run_factors same earlier_session_def earlier_fields wire_append wire_warning)
  have warn: "id1 \<noteq> guid rootDoc \<longrightarrow>
        snd (createAffineDataSource env id1 rootDoc w) =
          w\<lparr>trace := trace w @ [ConsoleWarn ''important!! please use doc.guid as roomName'']\<rparr>"
    by (simp add: createAffineDataSource_def console_warn_def log_def Let_def)
  have quiet: "id1 = guid rootDoc \<longrightarrow> snd (createAffineDataSource env id1 rootDoc w) = w"
    by (simp add: createAffineDataSource_def Let_def)
  have scope: "all_scoped rootDoc w \<longrightarrow>
        all_scoped rootDoc (world_of (run env id1 rootDoc acts w))"
    by (simp add: all_scoped_run)
  from runs warn quiet scope show ?thesis by blast
qed

theorem id_does_not_reach_the_wire_witness:
  "''lobby'' \<noteq> guid sample_doc
   \<and> ''room'' = guid sample_doc
   \<and> outcomes (run sample_env ''lobby'' sample_doc sample_actions sample_world)
       = outcomes (run sample_env ''room'' sample_doc sample_actions sample_world)
   \<and> wire (trace (world_of (run sample_env ''lobby'' sample_doc sample_actions sample_world)))
       = wire (trace (world_of (run sample_env ''room'' sample_doc sample_actions sample_world)))
   \<and> snd (createAffineDataSource sample_env ''lobby'' sample_doc sample_world) =
       sample_world\<lparr>trace := trace sample_world
                        @ [ConsoleWarn ''important!! please use doc.guid as roomName'']\<rparr>
   \<and> snd (createAffineDataSource sample_env ''room'' sample_doc sample_world) = sample_world
   \<and> all_scoped sample_doc sample_world
   \<and> all_scoped sample_doc
       (world_of (run sample_env ''lobby'' sample_doc sample_actions sample_world))
   \<and> count_emits ''client-update''
       (trace (world_of (run sample_env ''lobby'' sample_doc sample_actions sample_world))) = 1"
proof -
  have h0: "all_scoped sample_doc sample_world"
    by code_simp
  have h1: "''lobby'' \<noteq> guid sample_doc"
    by code_simp
  have h2: "''room'' = guid sample_doc"
    by code_simp
  have n: "count_emits ''client-update''
       (trace (world_of (run sample_env ''lobby'' sample_doc sample_actions sample_world))) = 1"
    by code_simp
  show ?thesis
    using h0 h1 h2 n
      id_does_not_reach_the_wire [of sample_env "''lobby''" sample_doc sample_actions
        sample_world "''room''"]
      id_does_not_reach_the_wire [of sample_env "''room''" sample_doc sample_actions
        sample_world "''lobby''"]
    by blast
qed

end
